theory Spec2Isabelle
  imports Complex_Main
begin

section \<open>The preset engine of editpro: \<open>processImage\<close>\<close>

text \<open>
  The development embeds \<open>processImage\<close> (the preset engine, \<open>utils/presetEngine\<close>) and
  the two interfaces of \<open>data/presets.ts\<close> it reads.

  Conventions of the embedding.
  \<^item> In the model of the whole call a JavaScript \<open>number\<close> is a \<open>real\<close>: arithmetic is
    exact, there is no NaN, no infinity and no rounding of intermediate results. The
    statements made on this model are those that do not rest on the rounding of an
    operation: ranges of stored bytes, entries left unchanged, equalities between two runs
    of the same operations, and values that binary64 and exact arithmetic store alike.
  \<^item> The byte that a loop stores does depend on the binary64 rounding of every operation.
    The tone loop is therefore embedded a second time in binary64 (\<open>toneBody64\<close>), and
    the statement that pins the bytes it stores is made there.
  \<^item> An \<open>ImageData.data\<close> array (a \<open>Uint8ClampedArray\<close>) is an \<open>int list\<close>, four
    entries per pixel in the order R, G, B, A; a store converts the number with
    \<open>toUint8Clamp\<close>, and a store beyond the end of the array is ignored, which is what
    \<open>xs[i := v]\<close> does.
  \<^item> The 2D canvas operations that the browser supplies (drawing through a CSS filter,
    the radial gradient, the composite fills, the text, the JPEG encoder) are fields of
    a \<open>backend\<close> record that every run takes as a parameter. A canvas is taken to hold
    exactly the bytes last put on it.
\<close>

subsection \<open>Numbers and typed arrays\<close>

text \<open>\<open>x || d\<close> on numbers: the default replaces a falsy left operand, that is 0.\<close>

definition orElse :: "real \<Rightarrow> real \<Rightarrow> real" where
  "orElse x d = (if x = 0 then d else x)"

text \<open>
  The conversion of a store into a \<open>Uint8ClampedArray\<close>: clamp to 0..255, then round to
  the nearest integer, a tie going to the even neighbour.
\<close>

definition toUint8Clamp :: "real \<Rightarrow> int" where
  "toUint8Clamp x =
     (let clamped = min (max x 0) 255;
          f = \<lfloor>clamped\<rfloor>
      in if clamped < of_int f + 0.5 then f
         else if of_int f + 0.5 < clamped then f + 1
         else if even f then f else f + 1)"

text \<open>\<open>Math.max(0, Math.min(255, x))\<close>, the clamp written before each store.\<close>

definition clamp255 :: "real \<Rightarrow> real" where
  "clamp255 x = max 0 (min 255 x)"

subsection \<open>\<open>PresetSettings\<close> and \<open>ManualSettings\<close>\<close>

datatype overlayType = Grain | Vignette | Volumetric | NeuralBokeh

datatype category = Cinematic | Nature | Artistic | Retouching | NeuralAI

record overlay =
  ov_type :: overlayType
  ov_intensity :: real
  ov_color :: "string option"

record frequencySeparation =
  fs_radius :: real
  fs_intensity :: real
  fs_toneSmoothing :: "bool option"

record tonalRange =
  tr_whites :: real
  tr_blacks :: real
  tr_highlights :: real
  tr_shadows :: real
  tr_dehaze :: "real option"

record toneCurve =
  tc_highlights :: real
  tc_lights :: real
  tc_darks :: real
  tc_shadows :: real

record colorBalance =
  cb_temp :: real
  cb_tint :: real

record glow =
  glow_intensity :: real
  glow_radius :: real

record PresetSettings =
  preset_id :: string
  preset_name :: string
  preset_category :: category
  filters :: string
  overlay :: "overlay option"
  aiSubjectOnly :: "bool option"
  frequencySeparation :: "frequencySeparation option"
  tonalRange :: "tonalRange option"
  toneCurve :: "toneCurve option"
  colorBalance :: "colorBalance option"
  glow :: "glow option"
  preset_disabledSections :: "(string \<rightharpoonup> bool) option"

text \<open>
  \<open>ManualSettings\<close>: every field of the interface is required, so a settings object is a
  record of values; the argument itself is optional.
\<close>

record ManualSettings =
  exposure :: real
  contrast :: real
  saturation :: real
  sharpness :: real
  highlights :: real
  shadows :: real
  whites :: real
  blacks :: real
  texture :: real
  clarity :: real
  dehaze :: real
  temp :: real
  tint :: real
  whiteOverlay :: real
  blackOverlay :: real
  disabledSections :: "string \<rightharpoonup> bool"
  skinSoftening :: real
  brightness :: real
  noiseReduction :: real
  hue :: real
  levelsBlack :: real
  levelsWhite :: real
  tintShadows :: string
  tintHighlights :: string
  autoBrush :: real
  curves :: real
  vibrance :: real
  skinTone :: real
  dodgeBurn :: real
  sharpenRadius :: real
  sharpenDetail :: real
  vignette :: real
  grain :: real
  watermarkText :: string
  watermarkOpacity :: real
  watermarkSize :: real
  watermarkColor :: string

text \<open>
  The values that the destructuring \<open>= manualSettings || {}\<close> gives when no settings are
  passed. The fields that \<open>processImage\<close> does not destructure take the values of
  \<open>DEFAULT_MANUAL_SETTINGS\<close> of the application; nothing below reads them.
\<close>

definition defaultSettings :: ManualSettings where
  "defaultSettings =
     \<lparr> exposure = 1, contrast = 1, saturation = 1, sharpness = 0, highlights = 1,
       shadows = 1, whites = 1, blacks = 1, texture = 0, clarity = 0, dehaze = 0,
       temp = 0, tint = 0, whiteOverlay = 0, blackOverlay = 0,
       disabledSections = Map.empty, skinSoftening = 0, brightness = 1,
       noiseReduction = 0, hue = 0, levelsBlack = 0, levelsWhite = 255,
       tintShadows = ''#000000'', tintHighlights = ''#ffffff'', autoBrush = 0,
       curves = 0, vibrance = 1, skinTone = 0, dodgeBurn = 0, sharpenRadius = 1,
       sharpenDetail = 25, vignette = 0, grain = 0, watermarkText = '''',
       watermarkOpacity = 0.8, watermarkSize = 20, watermarkColor = ''#ffffff'' \<rparr>"

definition settingsOf :: "ManualSettings option \<Rightarrow> ManualSettings" where
  "settingsOf manualSettings =
     (case manualSettings of None \<Rightarrow> defaultSettings | Some m \<Rightarrow> m)"

text \<open>\<open>disabledSections[key]\<close> read as a condition: a missing key is falsy.\<close>

definition isDisabled :: "ManualSettings \<Rightarrow> string \<Rightarrow> bool" where
  "isDisabled m key = (disabledSections m key = Some True)"

text \<open>\<open>preset.colorBalance?.temp || 0\<close> and \<open>preset.colorBalance?.tint || 0\<close>.\<close>

definition presetTemp :: "PresetSettings \<Rightarrow> real" where
  "presetTemp preset =
     (case colorBalance preset of None \<Rightarrow> 0 | Some cb \<Rightarrow> orElse (cb_temp cb) 0)"

definition presetTint :: "PresetSettings \<Rightarrow> real" where
  "presetTint preset =
     (case colorBalance preset of None \<Rightarrow> 0 | Some cb \<Rightarrow> orElse (cb_tint cb) 0)"

text \<open>\<open>preset.frequencySeparation?.radius || 8\<close>.\<close>

definition fsRadius :: "PresetSettings \<Rightarrow> real" where
  "fsRadius preset =
     (case frequencySeparation preset of None \<Rightarrow> 8 | Some fs \<Rightarrow> orElse (fs_radius fs) 8)"

subsection \<open>Canvases, the browser's operations, and the result of a call\<close>

record canvas =
  width :: nat
  height :: nat
  data :: "int list"

text \<open>
  The operations of the 2D context that the code calls, each returning the pixel data of
  the canvas drawn on:
  \<^item> \<open>filterDraw filters contrast saturation src\<close>: \<open>drawImage(src)\<close> under the filter
    \<open>filters + ' contrast(..) saturate(..)'\<close>, read back with \<open>getImageData\<close>;
  \<^item> \<open>blurDraw radius src\<close>: \<open>drawImage(src)\<close> under \<open>blur(radius px)\<close> on a cleared canvas;
  \<^item> \<open>vignetteFill v c\<close>: \<open>fillRect\<close> with the radial gradient ending in \<open>rgba(0,0,0,v)\<close>;
  \<^item> \<open>screenFill a c\<close>: \<open>fillRect\<close> of \<open>rgba(255,255,255,a)\<close> under \<open>screen\<close>;
  \<^item> \<open>multiplyFill a c\<close>: \<open>fillRect\<close> of \<open>rgba(0,0,0,a)\<close> under \<open>multiply\<close>;
  \<^item> \<open>textFill text color opacity fontSize c\<close>: the \<open>fillText\<close> of the watermark;
  \<^item> \<open>toDataURL c\<close>: the JPEG data URL at quality 0.95.
\<close>

record backend =
  filterDraw :: "string \<Rightarrow> real \<Rightarrow> real \<Rightarrow> canvas \<Rightarrow> int list"
  blurDraw :: "real \<Rightarrow> canvas \<Rightarrow> int list"
  vignetteFill :: "real \<Rightarrow> canvas \<Rightarrow> int list"
  screenFill :: "real \<Rightarrow> canvas \<Rightarrow> int list"
  multiplyFill :: "real \<Rightarrow> canvas \<Rightarrow> int list"
  textFill :: "string \<Rightarrow> string \<Rightarrow> real \<Rightarrow> real \<Rightarrow> canvas \<Rightarrow> int list"
  toDataURL :: "canvas \<Rightarrow> string"

text \<open>What happens to \<open>img\<close> after \<open>img.src = imageSrc\<close>: it loads, or it fails to decode.\<close>

datatype imageLoad = OnLoad canvas | OnError

text \<open>The state in which the returned promise ends.\<close>

datatype 'a promise = Pending | Resolved 'a | Rejected string

subsection \<open>The pixel loops\<close>

text \<open>
  \<open>for (let i = 0; i < data.length; i += 4) { ... }\<close> over a typed array: the body reads
  the three colour entries of the pixel at \<open>i\<close> and stores three new ones. \<open>n\<close> is the
  length of the array, which a store does not change.
\<close>

function forPixels ::
  "(nat \<Rightarrow> int \<Rightarrow> int \<Rightarrow> int \<Rightarrow> int \<times> int \<times> int) \<Rightarrow> nat \<Rightarrow> nat \<Rightarrow> int list \<Rightarrow> int list" where
  "forPixels body n i d =
     (if i < n then
        (case body i (d ! i) (d ! (i + 1)) (d ! (i + 2)) of
           (r, g, b) \<Rightarrow> forPixels body n (i + 4) (d[i := r, i + 1 := g, i + 2 := b]))
      else d)"
  by pat_completeness auto
termination
  by (relation "measure (\<lambda>(body, n, i, d). n - i)") auto

declare forPixels.simps [simp del]

text \<open>The white balance helper.\<close>

definition applyWB :: "real \<Rightarrow> real \<Rightarrow> real \<Rightarrow> real \<Rightarrow> real \<Rightarrow> real \<times> real \<times> real" where
  "applyWB r0 g0 b0 t tn =
     (let r1 = r0 + t * 0.5; b1 = b0 - t * 0.5;
          g1 = g0 - tn * 0.5; r2 = r1 + tn * 0.25; b2 = b1 + tn * 0.25
      in (r2, g1, b2))"

text \<open>Step 1, the body of the loop under \<open>!disabledSections['basic']\<close>.\<close>

definition toneBody ::
  "PresetSettings \<Rightarrow> ManualSettings \<Rightarrow> nat \<Rightarrow> int \<Rightarrow> int \<Rightarrow> int \<Rightarrow> int \<times> int \<times> int" where
  "toneBody preset m i r0 g0 b0 =
     (case applyWB (of_int r0) (of_int g0) (of_int b0)
             (presetTemp preset + temp m) (presetTint preset + tint m) of
        (r1, g1, b1) \<Rightarrow>
          let r2 = r1 * exposure m * whites m;
              g2 = g1 * exposure m * whites m;
              b2 = b1 * exposure m * whites m;
              bOffset = (blacks m - 1) * 50;
              r3 = r2 + bOffset; g3 = g2 + bOffset; b3 = b2 + bOffset;
              dFactor = dehaze m * 0.3;
              r4 = (if dehaze m \<noteq> 0 then (r3 - 128) * (1 + dFactor) + 128 + dehaze m * 15 else r3);
              g4 = (if dehaze m \<noteq> 0 then (g3 - 128) * (1 + dFactor) + 128 + dehaze m * 15 else g3);
              b4 = (if dehaze m \<noteq> 0 then (b3 - 128) * (1 + dFactor) + 128 + dehaze m * 15 else b3)
          in (toUint8Clamp (clamp255 r4), toUint8Clamp (clamp255 g4), toUint8Clamp (clamp255 b4)))"

definition toneLoop :: "PresetSettings \<Rightarrow> ManualSettings \<Rightarrow> int list \<Rightarrow> int list" where
  "toneLoop preset m d = forPixels (toneBody preset m) (length d) 0 d"

definition toneStage :: "PresetSettings \<Rightarrow> ManualSettings \<Rightarrow> int list \<Rightarrow> int list" where
  "toneStage preset m d = (if \<not> isDisabled m ''basic'' then toneLoop preset m d else d)"

text \<open>
  The unsharp mask: \<open>pixels[i] += (pixels[i] - blurredData[i]) * intensity\<close> for the three
  colour entries. The three stores touch three different entries, so reading the pixel
  first and storing afterwards gives the same array.
\<close>

definition detailBody :: "int list \<Rightarrow> real \<Rightarrow> nat \<Rightarrow> int \<Rightarrow> int \<Rightarrow> int \<Rightarrow> int \<times> int \<times> int" where
  "detailBody blurredData intensity i r0 g0 b0 =
     (toUint8Clamp (of_int r0 + (of_int r0 - of_int (blurredData ! i)) * intensity),
      toUint8Clamp (of_int g0 + (of_int g0 - of_int (blurredData ! (i + 1))) * intensity),
      toUint8Clamp (of_int b0 + (of_int b0 - of_int (blurredData ! (i + 2))) * intensity))"

definition detailLoop :: "int list \<Rightarrow> real \<Rightarrow> int list \<Rightarrow> int list" where
  "detailLoop blurredData intensity pixels =
     forPixels (detailBody blurredData intensity) (length pixels) 0 pixels"

definition detailStage :: "backend \<Rightarrow> ManualSettings \<Rightarrow> canvas \<Rightarrow> int list" where
  "detailStage env m bufferCanvas =
     (if \<not> isDisabled m ''detail'' \<and> sharpness m > 0 then
        (let blurredData = blurDraw env (sharpenRadius m) bufferCanvas;
             intensity = sharpness m * (0.5 + sharpenDetail m / 50)
         in detailLoop blurredData intensity (data bufferCanvas))
      else data bufferCanvas)"

text \<open>The three blocks of the last loop: presence, vibrance, skin retouch.\<close>

definition presence ::
  "ManualSettings \<Rightarrow> int list \<Rightarrow> int list \<Rightarrow> nat \<Rightarrow> real \<times> real \<times> real \<Rightarrow> real \<times> real \<times> real" where
  "presence m fineBlurred mediumBlurred i rgb =
     (case rgb of (r0, g0, b0) \<Rightarrow>
        let r1 = (if texture m \<noteq> 0 then r0 + (r0 - of_int (fineBlurred ! i)) * texture m * 0.8 else r0);
            g1 = (if texture m \<noteq> 0 then g0 + (g0 - of_int (fineBlurred ! (i + 1))) * texture m * 0.8 else g0);
            b1 = (if texture m \<noteq> 0 then b0 + (b0 - of_int (fineBlurred ! (i + 2))) * texture m * 0.8 else b0);
            r2 = (if clarity m \<noteq> 0 then r1 + (r1 - of_int (mediumBlurred ! i)) * clarity m * 0.5 else r1);
            g2 = (if clarity m \<noteq> 0 then g1 + (g1 - of_int (mediumBlurred ! (i + 1))) * clarity m * 0.5 else g1);
            b2 = (if clarity m \<noteq> 0 then b1 + (b1 - of_int (mediumBlurred ! (i + 2))) * clarity m * 0.5 else b1)
        in (r2, g2, b2))"

text \<open>
  In \<open>vibranceStep\<close> the code divides by \<open>510 - max - min\<close> or by \<open>max + min\<close>. Where
  that divisor is 0 while \<open>max \<noteq> min\<close> (possible only for values that presence has pushed
  outside 0..255) the code continues with an infinite value, and the model with
  \<open>x / 0 = 0\<close>; no statement below rests on the value of \<open>s\<close> there.
\<close>

definition vibranceStep :: "real \<Rightarrow> real \<times> real \<times> real \<Rightarrow> real \<times> real \<times> real" where
  "vibranceStep vib rgb =
     (case rgb of (r, g, b) \<Rightarrow>
        if vib \<noteq> 1 then
          (let mx = max (max r g) b; mn = min (min r g) b;
               l = (mx + mn) / 510;
               s = (if mx = mn then 0
                    else if l > 0.5 then (mx - mn) / (510 - mx - mn)
                    else (mx - mn) / (mx + mn));
               saturationMultiplier = (1 - s) * (vib - 1);
               vFactor = 1 + saturationMultiplier
           in (l * 255 + (r - l * 255) * vFactor,
               l * 255 + (g - l * 255) * vFactor,
               l * 255 + (b - l * 255) * vFactor))
        else (r, g, b))"

definition isSkin :: "real \<Rightarrow> real \<Rightarrow> real \<Rightarrow> bool" where
  "isSkin r g b = (r > 95 \<and> g > 40 \<and> b > 20 \<and> r > g \<and> r > b \<and> \<bar>r - g\<bar> > 15)"

definition blendFactor :: "real \<Rightarrow> real \<Rightarrow> real" where
  "blendFactor skinSoft tex = (skinSoft * 0.6 + (if tex < 0 then \<bar>tex\<bar> else 0)) * 0.8"

definition retouch ::
  "ManualSettings \<Rightarrow> int list \<Rightarrow> nat \<Rightarrow> real \<times> real \<times> real \<Rightarrow> real \<times> real \<times> real" where
  "retouch m fsBlurred i rgb =
     (case rgb of (r0, g0, b0) \<Rightarrow>
        if \<not> isDisabled m ''retouch'' then
          (if isSkin r0 g0 b0 then
             (let blend = blendFactor (skinSoftening m) (texture m);
                  r1 = r0 * (1 - blend) + of_int (fsBlurred ! i) * blend;
                  g1 = g0 * (1 - blend) + of_int (fsBlurred ! (i + 1)) * blend;
                  b1 = b0 * (1 - blend) + of_int (fsBlurred ! (i + 2)) * blend
              in if dodgeBurn m > 0 then
                   (let boost = 1 + ((r1 + g1 + b1) / 3 - 128) / 128 * dodgeBurn m * 0.4
                    in (r1 * boost, g1 * boost, b1 * boost))
                 else (r1, g1, b1))
           else (r0, g0, b0))
        else (r0, g0, b0))"

definition mainBody ::
  "ManualSettings \<Rightarrow> int list \<Rightarrow> int list \<Rightarrow> int list \<Rightarrow> nat \<Rightarrow> int \<Rightarrow> int \<Rightarrow> int \<Rightarrow> int \<times> int \<times> int" where
  "mainBody m fineBlurred mediumBlurred fsBlurred i r0 g0 b0 =
     (case retouch m fsBlurred i
             (vibranceStep (vibrance m)
                (presence m fineBlurred mediumBlurred i (of_int r0, of_int g0, of_int b0))) of
        (r, g, b) \<Rightarrow> (toUint8Clamp (clamp255 r), toUint8Clamp (clamp255 g), toUint8Clamp (clamp255 b)))"

definition mainLoop ::
  "ManualSettings \<Rightarrow> int list \<Rightarrow> int list \<Rightarrow> int list \<Rightarrow> int list \<Rightarrow> int list" where
  "mainLoop m fineBlurred mediumBlurred fsBlurred pixels =
     forPixels (mainBody m fineBlurred mediumBlurred fsBlurred) (length pixels) 0 pixels"

subsection \<open>The stages on the canvas and the whole call\<close>

definition fsBlurredOf :: "backend \<Rightarrow> PresetSettings \<Rightarrow> canvas \<Rightarrow> int list" where
  "fsBlurredOf env preset bufferCanvas = blurDraw env (fsRadius preset) bufferCanvas"

definition effectsStage :: "backend \<Rightarrow> ManualSettings \<Rightarrow> canvas \<Rightarrow> canvas" where
  "effectsStage env m c0 =
     (let c1 = (if vignette m > 0 then c0\<lparr>data := vignetteFill env (vignette m) c0\<rparr> else c0)
      in if \<not> isDisabled m ''effects'' then
           (let c2 = (if whiteOverlay m > 0
                      then c1\<lparr>data := screenFill env (whiteOverlay m * 0.3) c1\<rparr> else c1)
            in if blackOverlay m > 0
               then c2\<lparr>data := multiplyFill env (blackOverlay m) c2\<rparr> else c2)
         else c1)"

definition watermarkStage :: "backend \<Rightarrow> ManualSettings \<Rightarrow> canvas \<Rightarrow> canvas" where
  "watermarkStage env m c =
     (if \<not> isDisabled m ''watermark'' \<and> watermarkText m \<noteq> [] \<and> watermarkOpacity m > 0 then
        (let fontSize = (real (width c) / 100) * watermarkSize m
         in c\<lparr>data := textFill env (watermarkText m) (watermarkColor m)
                         (watermarkOpacity m) fontSize c\<rparr>)
      else c)"

text \<open>
  The body of \<open>img.onload\<close> up to the encoder: \<open>canvas0\<close> is the first canvas after
  step 1, \<open>bufferCanvas\<close> the one drawn through the filter; the three blurs and the blur
  of the unsharp mask are all taken from \<open>bufferCanvas\<close> as drawn, before \<open>pixels\<close> are
  put back on it.
\<close>

definition renderCanvas :: "backend \<Rightarrow> canvas \<Rightarrow> PresetSettings \<Rightarrow> ManualSettings \<Rightarrow> canvas" where
  "renderCanvas env img preset m =
     (let canvas0 = img\<lparr>data := toneStage preset m (data img)\<rparr>;
          bufferCanvas =
            canvas0\<lparr>data := filterDraw env (filters preset) (contrast m) (saturation m) canvas0\<rparr>;
          fineBlurred = blurDraw env 2 bufferCanvas;
          mediumBlurred = blurDraw env 12 bufferCanvas;
          fsBlurred = fsBlurredOf env preset bufferCanvas;
          pixels = mainLoop m fineBlurred mediumBlurred fsBlurred (detailStage env m bufferCanvas)
      in watermarkStage env m (effectsStage env m (bufferCanvas\<lparr>data := pixels\<rparr>)))"

text \<open>
  The promise that \<open>processImage\<close> returns. Its executor takes \<open>resolve\<close> only and sets
  \<open>img.onload\<close> only: a failed decode runs no handler. \<open>getImageData\<close> throws on a
  canvas without area, inside the handler, before \<open>resolve\<close> is reached.
\<close>

definition processImage ::
  "backend \<Rightarrow> imageLoad \<Rightarrow> PresetSettings \<Rightarrow> ManualSettings option \<Rightarrow> string promise" where
  "processImage env loaded preset manualSettings =
     (case loaded of
        OnError \<Rightarrow> Pending
      | OnLoad img \<Rightarrow>
          if width img = 0 \<or> height img = 0 then Pending
          else Resolved (toDataURL env (renderCanvas env img preset (settingsOf manualSettings))))"

subsection \<open>Binary64 numbers\<close>

text \<open>
  The value of a JavaScript \<open>number\<close> as the code computes with it: a finite binary64
  value, given by the real it denotes, an infinity, or NaN. The sign of a zero is not kept;
  nothing in the tone loop divides, so it cannot show in a stored byte.

  \<open>fl\<close> rounds a real to the nearest binary64 value, a tie going to the even
  significand: \<open>exponent\<close> is the binary exponent of the magnitude, kept from falling
  below -1022 (gradual underflow) and from passing 1024, the significand is the magnitude
  in units of \<open>2 ^ (exponent - 52)\<close> rounded to an integer, and a result of \<open>2 ^ 1024\<close> or
  more is an infinity. Sum, difference and product are the exact results rounded, with the
  usual results on infinities and NaN.
\<close>

datatype number = Fin real | PosInf | NegInf | NaN

definition pow2 :: "int \<Rightarrow> real" where
  "pow2 e = (if 0 \<le> e then 2 ^ nat e else 1 / 2 ^ nat (- e))"

function expoUp :: "real \<Rightarrow> int \<Rightarrow> int" where
  "expoUp a e = (if 2 \<le> a \<and> e < 1024 then expoUp (a / 2) (e + 1) else e)"
  by pat_completeness auto
termination
  by (relation "measure (\<lambda>(a, e). nat (1024 - e))") auto

function expoDown :: "real \<Rightarrow> int \<Rightarrow> int" where
  "expoDown a e = (if a < 1 \<and> - 1022 < e then expoDown (a * 2) (e - 1) else e)"
  by pat_completeness auto
termination
  by (relation "measure (\<lambda>(a, e). nat (e + 1022))") auto

declare expoUp.simps [simp del] expoDown.simps [simp del]

definition exponent :: "real \<Rightarrow> int" where
  "exponent a = (if 1 \<le> a then expoUp a 0 else expoDown a 0)"

definition roundTiesEven :: "real \<Rightarrow> int" where
  "roundTiesEven x =
     (let f = \<lfloor>x\<rfloor>
      in if x < of_int f + 0.5 then f
         else if of_int f + 0.5 < x then f + 1
         else if even f then f else f + 1)"

definition fl :: "real \<Rightarrow> number" where
  "fl x =
     (if x = 0 then Fin 0
      else (let e = exponent \<bar>x\<bar>;
                u = pow2 (e - 52);
                k = roundTiesEven (\<bar>x\<bar> / u)
            in if 1024 \<le> e \<or> (e = 1023 \<and> 2 ^ 53 \<le> k)
               then (if 0 < x then PosInf else NegInf)
               else Fin (if x < 0 then - (of_int k * u) else of_int k * u)))"

text \<open>
  The number that a decimal literal of the source, a slider value or an array entry
  denotes: the nearest binary64 value.
\<close>

definition num :: "real \<Rightarrow> number" where
  "num x = fl x"

fun fneg :: "number \<Rightarrow> number" where
  "fneg (Fin a) = Fin (- a)"
| "fneg PosInf = NegInf"
| "fneg NegInf = PosInf"
| "fneg NaN = NaN"

fun fadd :: "number \<Rightarrow> number \<Rightarrow> number" where
  "fadd (Fin a) (Fin b) = fl (a + b)"
| "fadd NaN y = NaN"
| "fadd x NaN = NaN"
| "fadd PosInf NegInf = NaN"
| "fadd NegInf PosInf = NaN"
| "fadd PosInf y = PosInf"
| "fadd NegInf y = NegInf"
| "fadd x PosInf = PosInf"
| "fadd x NegInf = NegInf"

definition fsub :: "number \<Rightarrow> number \<Rightarrow> number" where
  "fsub x y = fadd x (fneg y)"

fun fsign :: "number \<Rightarrow> int" where
  "fsign (Fin a) = (if a < 0 then - 1 else if a = 0 then 0 else 1)"
| "fsign PosInf = 1"
| "fsign NegInf = - 1"
| "fsign NaN = 0"

fun fmul :: "number \<Rightarrow> number \<Rightarrow> number" where
  "fmul (Fin a) (Fin b) = fl (a * b)"
| "fmul NaN y = NaN"
| "fmul x NaN = NaN"
| "fmul x y =
     (if fsign x * fsign y = 0 then NaN else if 0 < fsign x * fsign y then PosInf else NegInf)"

text \<open>\<open>Math.min\<close> and \<open>Math.max\<close> of two numbers: NaN when either is NaN.\<close>

fun mathMin :: "number \<Rightarrow> number \<Rightarrow> number" where
  "mathMin (Fin a) (Fin b) = Fin (min a b)"
| "mathMin NaN y = NaN"
| "mathMin x NaN = NaN"
| "mathMin NegInf y = NegInf"
| "mathMin x NegInf = NegInf"
| "mathMin PosInf y = y"
| "mathMin x PosInf = x"

fun mathMax :: "number \<Rightarrow> number \<Rightarrow> number" where
  "mathMax (Fin a) (Fin b) = Fin (max a b)"
| "mathMax NaN y = NaN"
| "mathMax x NaN = NaN"
| "mathMax PosInf y = PosInf"
| "mathMax x PosInf = PosInf"
| "mathMax NegInf y = y"
| "mathMax x NegInf = x"

text \<open>The store of a number into a \<open>Uint8ClampedArray\<close>: NaN is stored as 0.\<close>

fun storeNum :: "number \<Rightarrow> int" where
  "storeNum (Fin x) = toUint8Clamp x"
| "storeNum PosInf = 255"
| "storeNum NegInf = 0"
| "storeNum NaN = 0"

subsection \<open>The tone loop in binary64\<close>

text \<open>
  The body of the tone loop once more, every operation of the source a binary64
  operation, in the order in which the source writes them. The literals 0.5, 0.25, 1,
  50, 128, 15, 0 and 255 are binary64 values; 0.3 is not and denotes \<open>num 0.3\<close>.
\<close>

definition applyWB64 ::
  "number \<Rightarrow> number \<Rightarrow> number \<Rightarrow> number \<Rightarrow> number \<Rightarrow> number \<times> number \<times> number" where
  "applyWB64 r0 g0 b0 t tn =
     (let r1 = fadd r0 (fmul t (Fin 0.5)); b1 = fsub b0 (fmul t (Fin 0.5));
          g1 = fsub g0 (fmul tn (Fin 0.5)); r2 = fadd r1 (fmul tn (Fin 0.25));
          b2 = fadd b1 (fmul tn (Fin 0.25))
      in (r2, g1, b2))"

definition toneBody64 ::
  "PresetSettings \<Rightarrow> ManualSettings \<Rightarrow> nat \<Rightarrow> int \<Rightarrow> int \<Rightarrow> int \<Rightarrow> int \<times> int \<times> int" where
  "toneBody64 preset m i r0 g0 b0 =
     (case applyWB64 (num (of_int r0)) (num (of_int g0)) (num (of_int b0))
             (fadd (num (presetTemp preset)) (num (temp m)))
             (fadd (num (presetTint preset)) (num (tint m))) of
        (r1, g1, b1) \<Rightarrow>
          let r2 = fmul (fmul r1 (num (exposure m))) (num (whites m));
              g2 = fmul (fmul g1 (num (exposure m))) (num (whites m));
              b2 = fmul (fmul b1 (num (exposure m))) (num (whites m));
              bOffset = fmul (fsub (num (blacks m)) (Fin 1)) (Fin 50);
              r3 = fadd r2 bOffset; g3 = fadd g2 bOffset; b3 = fadd b2 bOffset;
              dFactor = fmul (num (dehaze m)) (num 0.3);
              r4 = (if num (dehaze m) \<noteq> Fin 0
                    then fadd (fadd (fmul (fsub r3 (Fin 128)) (fadd (Fin 1) dFactor)) (Fin 128))
                           (fmul (num (dehaze m)) (Fin 15))
                    else r3);
              g4 = (if num (dehaze m) \<noteq> Fin 0
                    then fadd (fadd (fmul (fsub g3 (Fin 128)) (fadd (Fin 1) dFactor)) (Fin 128))
                           (fmul (num (dehaze m)) (Fin 15))
                    else g3);
              b4 = (if num (dehaze m) \<noteq> Fin 0
                    then fadd (fadd (fmul (fsub b3 (Fin 128)) (fadd (Fin 1) dFactor)) (Fin 128))
                           (fmul (num (dehaze m)) (Fin 15))
                    else b3)
          in (storeNum (mathMax (Fin 0) (mathMin (Fin 255) r4)),
              storeNum (mathMax (Fin 0) (mathMin (Fin 255) g4)),
              storeNum (mathMax (Fin 0) (mathMin (Fin 255) b4))))"

definition toneLoop64 :: "PresetSettings \<Rightarrow> ManualSettings \<Rightarrow> int list \<Rightarrow> int list" where
  "toneLoop64 preset m d = forPixels (toneBody64 preset m) (length d) 0 d"

definition toneStage64 :: "PresetSettings \<Rightarrow> ManualSettings \<Rightarrow> int list \<Rightarrow> int list" where
  "toneStage64 preset m d = (if \<not> isDisabled m ''basic'' then toneLoop64 preset m d else d)"

subsection \<open>The tone stage as the specification words it\<close>

text \<open>
  The steps of the specification's ToneStage, each a definition of its own with the
  operands in the order of the specification's formulas, for comparison with
  \<open>toneBody64\<close>: the white balance with \<open>T\<close> and \<open>Tn\<close>, the step of exposure and whites,
  the blacks offset, the dehaze map and the clamp. The step of exposure and whites is a
  parameter: \<open>byProduct\<close> multiplies the channel by the product \<open>exposure \<cdot> whites\<close>,
  \<open>inTurn\<close> multiplies it by \<open>exposure\<close> and the result by \<open>whites\<close>.
\<close>

definition specT :: "PresetSettings \<Rightarrow> ManualSettings \<Rightarrow> number" where
  "specT preset m =
     fadd (num (case colorBalance preset of None \<Rightarrow> 0 | Some cb \<Rightarrow> cb_temp cb)) (num (temp m))"

definition specTn :: "PresetSettings \<Rightarrow> ManualSettings \<Rightarrow> number" where
  "specTn preset m =
     fadd (num (case colorBalance preset of None \<Rightarrow> 0 | Some cb \<Rightarrow> cb_tint cb)) (num (tint m))"

definition specWhiteBalance ::
  "number \<Rightarrow> number \<Rightarrow> number \<times> number \<times> number \<Rightarrow> number \<times> number \<times> number" where
  "specWhiteBalance T Tn rgb =
     (case rgb of (r0, g0, b0) \<Rightarrow>
        let r1 = fadd r0 (fmul (Fin 0.5) T); b1 = fsub b0 (fmul (Fin 0.5) T);
            g1 = fsub g0 (fmul (Fin 0.5) Tn); r2 = fadd r1 (fmul (Fin 0.25) Tn);
            b2 = fadd b1 (fmul (Fin 0.25) Tn)
        in (r2, g1, b2))"

definition byProduct :: "ManualSettings \<Rightarrow> number \<Rightarrow> number" where
  "byProduct m c = fmul c (fmul (num (exposure m)) (num (whites m)))"

definition inTurn :: "ManualSettings \<Rightarrow> number \<Rightarrow> number" where
  "inTurn m c = fmul (fmul c (num (exposure m))) (num (whites m))"

definition specBlacks :: "ManualSettings \<Rightarrow> number \<Rightarrow> number" where
  "specBlacks m c = fadd c (fmul (fsub (num (blacks m)) (Fin 1)) (Fin 50))"

definition specDehaze :: "ManualSettings \<Rightarrow> number \<Rightarrow> number" where
  "specDehaze m c =
     (if num (dehaze m) \<noteq> Fin 0
      then fadd (fadd (fmul (fsub c (Fin 128)) (fadd (Fin 1) (fmul (num 0.3) (num (dehaze m)))))
                  (Fin 128))
             (fmul (Fin 15) (num (dehaze m)))
      else c)"

definition specClamp :: "number \<Rightarrow> number" where
  "specClamp c =
     (case c of
        Fin x \<Rightarrow> Fin (if x < 0 then 0 else if 255 < x then 255 else x)
      | PosInf \<Rightarrow> Fin 255
      | NegInf \<Rightarrow> Fin 0
      | NaN \<Rightarrow> NaN)"

definition specChannel ::
  "(ManualSettings \<Rightarrow> number \<Rightarrow> number) \<Rightarrow> ManualSettings \<Rightarrow> number \<Rightarrow> number" where
  "specChannel step m c = specClamp (specDehaze m (specBlacks m (step m c)))"

definition specTone ::
  "(ManualSettings \<Rightarrow> number \<Rightarrow> number) \<Rightarrow> PresetSettings \<Rightarrow> ManualSettings
     \<Rightarrow> number \<times> number \<times> number \<Rightarrow> number \<times> number \<times> number" where
  "specTone step preset m rgb =
     (case specWhiteBalance (specT preset m) (specTn preset m) rgb of
        (r, g, b) \<Rightarrow> (specChannel step m r, specChannel step m g, specChannel step m b))"

subsection \<open>Concrete inputs\<close>

text \<open>
  A backend on which the pipeline can be run: every drawing operation leaves the pixels
  as they are, and the encoder writes one character per byte.
\<close>

definition plainBackend :: backend where
  "plainBackend =
     \<lparr> filterDraw = (\<lambda>f c s src. data src),
       blurDraw = (\<lambda>radius src. data src),
       vignetteFill = (\<lambda>v c. data c),
       screenFill = (\<lambda>a c. data c),
       multiplyFill = (\<lambda>a c. data c),
       textFill = (\<lambda>t col op fs c. data c),
       toDataURL = (\<lambda>c. map char_of (data c)) \<rparr>"

text \<open>A preset with an empty filter string and none of the optional fields.\<close>

definition plainPreset :: PresetSettings where
  "plainPreset =
     \<lparr> preset_id = ''plain'', preset_name = ''Plain'', preset_category = Artistic,
       filters = [], overlay = None, aiSubjectOnly = None, frequencySeparation = None,
       tonalRange = None, toneCurve = None, colorBalance = None, glow = None,
       preset_disabledSections = None \<rparr>"

text \<open>The mid-gray image of 4 by 4 opaque pixels, and one opaque pixel of a given colour.\<close>

definition grayImage :: canvas where
  "grayImage = \<lparr> width = 4, height = 4, data = concat (replicate 16 [128, 128, 128, 255]) \<rparr>"

definition onePixel :: "int \<Rightarrow> int \<Rightarrow> int \<Rightarrow> canvas" where
  "onePixel r g b = \<lparr> width = 1, height = 1, data = [r, g, b, 255] \<rparr>"

text \<open>
  One skin-coloured pixel and the pixel of a blurred copy of it (the values of the
  specification's retouch scenario).
\<close>

definition skinData :: "int list" where
  "skinData = [200, 150, 100, 255]"

definition blurData :: "int list" where
  "blurData = [180, 140, 110, 255]"

text \<open>The plain preset with the colour balance of the preset \<open>studio-master-pro\<close>.\<close>

definition warmPreset :: PresetSettings where
  "warmPreset = plainPreset\<lparr>colorBalance := Some \<lparr>cb_temp = 4, cb_tint = 2\<rparr>\<rparr>"


text \<open>The default settings with \<open>exposure = 1.2\<close>.\<close>

definition brightSettings :: ManualSettings where
  "brightSettings = defaultSettings\<lparr>exposure := 1.2\<rparr>"

text \<open>The default settings with \<open>exposure = 1.1\<close>, and with \<open>exposure = 0.01\<close>, \<open>whites = 1.4\<close>.\<close>

definition litSettings :: ManualSettings where
  "litSettings = defaultSettings\<lparr>exposure := 1.1\<rparr>"

definition dimSettings :: ManualSettings where
  "dimSettings = defaultSettings\<lparr>exposure := 0.01, whites := 1.4\<rparr>"

text \<open>The default settings with \<open>texture = -0.5\<close>.\<close>

definition softSettings :: ManualSettings where
  "softSettings = defaultSettings\<lparr>texture := - 0.5\<rparr>"

subsection \<open>Sections and their parameters\<close>

text \<open>
  Setting the flag of one section, as \<open>toggleSection\<close> of the application does, and the
  values that put the parameters of a section at their defaults. \<open>toneDefaults\<close> resets the
  parameters that the loop under the \<open>basic\<close> flag reads, \<open>overlayDefaults\<close> those that
  the block under the \<open>effects\<close> flag reads.
\<close>

definition withSection :: "ManualSettings \<Rightarrow> string \<Rightarrow> bool \<Rightarrow> ManualSettings" where
  "withSection m key flag = m\<lparr>disabledSections := (disabledSections m)(key \<mapsto> flag)\<rparr>"

definition toneDefaults :: "ManualSettings \<Rightarrow> ManualSettings" where
  "toneDefaults m = m\<lparr>exposure := 1, whites := 1, blacks := 1, dehaze := 0, temp := 0, tint := 0\<rparr>"

definition detailDefaults :: "ManualSettings \<Rightarrow> ManualSettings" where
  "detailDefaults m =
     m\<lparr>sharpness := 0, sharpenRadius := 1, sharpenDetail := 25, noiseReduction := 0\<rparr>"

definition gradingDefaults :: "ManualSettings \<Rightarrow> ManualSettings" where
  "gradingDefaults m = m\<lparr>tintShadows := ''#000000'', tintHighlights := ''#ffffff''\<rparr>"

definition overlayDefaults :: "ManualSettings \<Rightarrow> ManualSettings" where
  "overlayDefaults m = m\<lparr>whiteOverlay := 0, blackOverlay := 0\<rparr>"

definition retouchDefaults :: "ManualSettings \<Rightarrow> ManualSettings" where
  "retouchDefaults m = m\<lparr>skinSoftening := 0, skinTone := 0, dodgeBurn := 0\<rparr>"

definition watermarkDefaults :: "ManualSettings \<Rightarrow> ManualSettings" where
  "watermarkDefaults m =
     m\<lparr>watermarkText := [], watermarkOpacity := 0.8, watermarkSize := 20,
       watermarkColor := ''#ffffff''\<rparr>"

text \<open>An array of bytes, and a decoded image whose data are bytes.\<close>

definition validBytes :: "int list \<Rightarrow> bool" where
  "validBytes d = list_all (\<lambda>v. 0 \<le> v \<and> v \<le> 255) d"

definition validLoad :: "imageLoad \<Rightarrow> bool" where
  "validLoad loaded = (case loaded of OnError \<Rightarrow> True | OnLoad img \<Rightarrow> validBytes (data img))"

section \<open>Properties of the building blocks\<close>

subsection \<open>Stores into a clamped byte array\<close>

lemma round_half_even_range:
  fixes c :: real and f :: int
  assumes "0 \<le> c" "c \<le> 255" "of_int f \<le> c" "c < of_int f + 1"
  shows "0 \<le> (if c < of_int f + 0.5 then f
               else if of_int f + 0.5 < c then f + 1
               else if even f then f else f + 1)
       \<and> (if c < of_int f + 0.5 then f
               else if of_int f + 0.5 < c then f + 1
               else if even f then f else f + 1) \<le> 255"
proof -
  have "(-1 :: real) < of_int f" using assms by linarith
  then have lo: "0 \<le> f" by linarith
  have "(of_int f :: real) \<le> 255" using assms by linarith
  then have hi: "f \<le> 255" by linarith
  show ?thesis
  proof (cases "f = 255")
    case True
    then have "c < of_int f + 0.5" using assms by simp
    then show ?thesis using True by simp
  next
    case False
    then have "f + 1 \<le> 255" using hi by linarith
    then show ?thesis using lo by auto
  qed
qed

lemma toUint8Clamp_range: "0 \<le> toUint8Clamp x \<and> toUint8Clamp x \<le> 255"
proof -
  let ?c = "min (max x 0) 255"
  have "0 \<le> ?c" "?c \<le> 255" "of_int \<lfloor>?c\<rfloor> \<le> ?c" "?c < of_int \<lfloor>?c\<rfloor> + 1"
    by linarith+
  from round_half_even_range [OF this] show ?thesis
    unfolding toUint8Clamp_def Let_def .
qed

lemma toUint8Clamp_byte: "0 \<le> v \<Longrightarrow> v \<le> 255 \<Longrightarrow> toUint8Clamp (of_int v) = v"
  unfolding toUint8Clamp_def Let_def by (simp add: min_def max_def)

lemma clamp255_byte: "0 \<le> v \<Longrightarrow> v \<le> 255 \<Longrightarrow> clamp255 (of_int v) = of_int v"
  unfolding clamp255_def by (simp add: min_def max_def)

lemma upd_nth_same: "xs[k := v] ! k = (if k < length xs then v else xs ! k)"
  by (simp add: list_update_beyond)

lemma upd_noop: "(k < length xs \<longrightarrow> v = xs ! k) \<Longrightarrow> xs[k := v] = xs"
  by (cases "k < length xs") (simp_all add: list_update_same_conv list_update_beyond)

subsection \<open>The loop over the pixels\<close>

text \<open>The loop keeps the length of the array.\<close>

lemma forPixels_length: "length (forPixels body n i d) = length d"
proof (induction body n i d rule: forPixels.induct)
  case (1 body n i d)
  show ?case
  proof (cases "i < n")
    case True
    obtain r g b where e: "body i (d ! i) (d ! (i + 1)) (d ! (i + 2)) = (r, g, b)"
      by (cases "body i (d ! i) (d ! (i + 1)) (d ! (i + 2))") auto
    from 1 [OF True e [symmetric] refl] True e show ?thesis
      by (subst forPixels.simps) simp
  next
    case False
    then show ?thesis by (subst forPixels.simps) simp
  qed
qed

text \<open>
  An entry below the running index, and every fourth entry counted from 3 when the index
  is a multiple of 4, is left as it is.
\<close>

lemma forPixels_frame:
  "j < i \<or> (i mod 4 = 0 \<and> j mod 4 = 3) \<Longrightarrow> forPixels body n i d ! j = d ! j"
proof (induction body n i d rule: forPixels.induct)
  case (1 body n i d)
  show ?case
  proof (cases "i < n")
    case True
    obtain r g b where e: "body i (d ! i) (d ! (i + 1)) (d ! (i + 2)) = (r, g, b)"
      by (cases "body i (d ! i) (d ! (i + 1)) (d ! (i + 2))") auto
    from "1.prems" have c: "j < i + 4 \<or> ((i + 4) mod 4 = 0 \<and> j mod 4 = 3)"
      by auto
    from "1.prems" have ne: "j \<noteq> i" "j \<noteq> i + 1" "j \<noteq> i + 2"
      by presburger+
    have "forPixels body n i d ! j = forPixels body n (i + 4) (d[i := r, i + 1 := g, i + 2 := b]) ! j"
      using True e by (subst forPixels.simps) simp
    also have "\<dots> = d[i := r, i + 1 := g, i + 2 := b] ! j"
      using 1(1) [OF True e [symmetric] refl c] .
    also have "\<dots> = d ! j"
      using ne by simp
    finally show ?thesis .
  next
    case False
    then show ?thesis by (subst forPixels.simps) simp
  qed
qed

text \<open>The three entries of the pixel at \<open>k\<close> are those that the body computes from the input.\<close>

lemma forPixels_pixel:
  assumes "i mod 4 = 0" "k mod 4 = 0" "i \<le> k" "k < n"
    and "body k (d ! k) (d ! (k + 1)) (d ! (k + 2)) = (r, g, b)"
  shows "forPixels body n i d ! k = d[k := r] ! k
       \<and> forPixels body n i d ! (k + 1) = d[k + 1 := g] ! (k + 1)
       \<and> forPixels body n i d ! (k + 2) = d[k + 2 := b] ! (k + 2)"
  using assms
proof (induction body n i d rule: forPixels.induct)
  case (1 body n i d)
  have lt: "i < n" using "1.prems" by simp
  obtain r' g' b' where e: "body i (d ! i) (d ! (i + 1)) (d ! (i + 2)) = (r', g', b')"
    by (cases "body i (d ! i) (d ! (i + 1)) (d ! (i + 2))") auto
  let ?d = "d[i := r', i + 1 := g', i + 2 := b']"
  have unf: "forPixels body n i d = forPixels body n (i + 4) ?d"
    using lt e by (subst forPixels.simps) simp
  show ?case
  proof (cases "i = k")
    case True
    with e "1.prems" have rgb: "r' = r" "g' = g" "b' = b" by simp_all
    have "forPixels body n (i + 4) ?d ! k = ?d ! k"
      "forPixels body n (i + 4) ?d ! (k + 1) = ?d ! (k + 1)"
      "forPixels body n (i + 4) ?d ! (k + 2) = ?d ! (k + 2)"
      using True by (simp_all add: forPixels_frame)
    then show ?thesis
      unfolding unf using True rgb by (simp add: upd_nth_same)
  next
    case False
    with "1.prems" have far: "i + 4 \<le> k" "(i + 4) mod 4 = 0" by presburger+
    then have same: "?d ! k = d ! k" "?d ! (k + 1) = d ! (k + 1)" "?d ! (k + 2) = d ! (k + 2)"
      by simp_all
    have "body k (?d ! k) (?d ! (k + 1)) (?d ! (k + 2)) = (r, g, b)"
      using "1.prems" by (simp only: same)
    from 1(1) [OF lt e [symmetric] refl far(2) "1.prems"(2) far(1) "1.prems"(4) this]
    show ?thesis
      unfolding unf using same by (simp add: upd_nth_same)
  qed
qed

text \<open>A body that returns what it reads leaves the array as it is.\<close>

lemma forPixels_id:
  assumes "\<And>k. k < length d \<Longrightarrow> k mod 4 = 0 \<Longrightarrow>
     (case body k (d ! k) (d ! (k + 1)) (d ! (k + 2)) of (r, g, b) \<Rightarrow>
        r = d ! k \<and> (k + 1 < length d \<longrightarrow> g = d ! (k + 1)) \<and> (k + 2 < length d \<longrightarrow> b = d ! (k + 2)))"
    and "i mod 4 = 0"
  shows "forPixels body n i d = d"
  using assms
proof (induction body n i d rule: forPixels.induct)
  case (1 body n i d)
  show ?case
  proof (cases "i < n")
    case True
    obtain r g b where e: "body i (d ! i) (d ! (i + 1)) (d ! (i + 2)) = (r, g, b)"
      by (cases "body i (d ! i) (d ! (i + 1)) (d ! (i + 2))") auto
    have v: "i < length d \<longrightarrow> r = d ! i" "i + 1 < length d \<longrightarrow> g = d ! (i + 1)"
      "i + 2 < length d \<longrightarrow> b = d ! (i + 2)"
      using "1.prems"(1) [of i] "1.prems"(2) e by auto
    have "d[i := r] = d" using v(1) by (rule upd_noop)
    moreover have "d[i + 1 := g] = d" using v(2) by (rule upd_noop)
    moreover have "d[i + 2 := b] = d" using v(3) by (rule upd_noop)
    ultimately have same: "d[i := r, i + 1 := g, i + 2 := b] = d"
      by simp
    have unf: "forPixels body n i d = forPixels body n (i + 4) d"
      using True e same by (subst forPixels.simps) simp
    have "(i + 4) mod 4 = 0" using "1.prems"(2) by presburger
    from 1(1) [OF True e [symmetric] refl, unfolded same, OF "1.prems"(1) this]
    show ?thesis unfolding unf by simp
  next
    case False
    then show ?thesis by (subst forPixels.simps) simp
  qed
qed

text \<open>An entry of a colour channel after the loop, read off the body at its pixel.\<close>

lemma forPixels_nth:
  assumes "j < length d" "j mod 4 \<noteq> 3"
  shows "forPixels body (length d) 0 d ! j =
     (case body (j - j mod 4) (d ! (j - j mod 4)) (d ! (j - j mod 4 + 1)) (d ! (j - j mod 4 + 2)) of
        (r, g, b) \<Rightarrow> [r, g, b] ! (j mod 4))"
proof -
  let ?k = "j - j mod 4"
  obtain r g b where e: "body ?k (d ! ?k) (d ! (?k + 1)) (d ! (?k + 2)) = (r, g, b)"
    by (cases "body ?k (d ! ?k) (d ! (?k + 1)) (d ! (?k + 2))") auto
  have k: "(0::nat) mod 4 = 0" "?k mod 4 = 0" "0 \<le> ?k" "?k < length d"
    using assms by presburger+
  note p = forPixels_pixel [of 0 ?k "length d" body d r g b, OF k e]
  from assms(2) have "j mod 4 = 0 \<or> j mod 4 = 1 \<or> j mod 4 = 2" by presburger
  then show ?thesis
  proof (elim disjE)
    assume c: "j mod 4 = 0"
    then have "?k = j" by simp
    with p assms(1) c e show ?thesis by (simp add: upd_nth_same)
  next
    assume c: "j mod 4 = 1"
    then have "?k + 1 = j" by presburger
    with p assms(1) c e show ?thesis by (simp add: upd_nth_same)
  next
    assume c: "j mod 4 = 2"
    then have "?k + 2 = j" by presburger
    with p assms(1) c e show ?thesis by (simp add: upd_nth_same)
  qed
qed

lemma forPixels_bytes:
  assumes "\<And>i r g b. case body i r g b of (r', g', b') \<Rightarrow>
             (0 \<le> r' \<and> r' \<le> 255) \<and> (0 \<le> g' \<and> g' \<le> 255) \<and> (0 \<le> b' \<and> b' \<le> 255)"
    and "j < length d" "j mod 4 \<noteq> 3"
  shows "0 \<le> forPixels body (length d) 0 d ! j \<and> forPixels body (length d) 0 d ! j \<le> 255"
proof -
  let ?k = "j - j mod 4"
  obtain r g b where e: "body ?k (d ! ?k) (d ! (?k + 1)) (d ! (?k + 2)) = (r, g, b)"
    by (cases "body ?k (d ! ?k) (d ! (?k + 1)) (d ! (?k + 2))") auto
  from assms(1) [of ?k "d ! ?k" "d ! (?k + 1)" "d ! (?k + 2)"] e
  have b: "0 \<le> r \<and> r \<le> 255" "0 \<le> g \<and> g \<le> 255" "0 \<le> b \<and> b \<le> 255" by simp_all
  from assms(3) have "j mod 4 = 0 \<or> j mod 4 = 1 \<or> j mod 4 = 2" by presburger
  then show ?thesis
    unfolding forPixels_nth [OF assms(2,3)] e using b by auto
qed

lemma toneBody_bytes:
  "case toneBody preset m i r g b of (r', g', b') \<Rightarrow>
     (0 \<le> r' \<and> r' \<le> 255) \<and> (0 \<le> g' \<and> g' \<le> 255) \<and> (0 \<le> b' \<and> b' \<le> 255)"
  unfolding toneBody_def Let_def by (simp add: toUint8Clamp_range split: prod.split)

lemma detailBody_bytes:
  "case detailBody bl k i r g b of (r', g', b') \<Rightarrow>
     (0 \<le> r' \<and> r' \<le> 255) \<and> (0 \<le> g' \<and> g' \<le> 255) \<and> (0 \<le> b' \<and> b' \<le> 255)"
  unfolding detailBody_def by (simp add: toUint8Clamp_range)

lemma mainBody_bytes:
  "case mainBody m f md fs i r g b of (r', g', b') \<Rightarrow>
     (0 \<le> r' \<and> r' \<le> 255) \<and> (0 \<le> g' \<and> g' \<le> 255) \<and> (0 \<le> b' \<and> b' \<le> 255)"
  unfolding mainBody_def by (simp add: toUint8Clamp_range split: prod.split)

subsection \<open>Loops whose parameters are neutral\<close>

lemma toneBody_neutral:
  assumes "presetTemp preset + temp m = 0" "presetTint preset + tint m = 0"
    "exposure m = 1" "whites m = 1" "blacks m = 1" "dehaze m = 0"
  shows "toneBody preset m i r g b =
     (toUint8Clamp (clamp255 (of_int r)), toUint8Clamp (clamp255 (of_int g)),
      toUint8Clamp (clamp255 (of_int b)))"
  unfolding toneBody_def applyWB_def Let_def using assms by simp

lemma store_byte: "0 \<le> v \<and> v \<le> 255 \<Longrightarrow> toUint8Clamp (clamp255 (of_int v)) = v"
  by (simp add: clamp255_byte toUint8Clamp_byte)

lemma forPixels_store_bytes:
  assumes body: "\<And>i r g b. body i r g b =
       (toUint8Clamp (clamp255 (of_int r)), toUint8Clamp (clamp255 (of_int g)),
        toUint8Clamp (clamp255 (of_int b)))"
    and bytes: "\<And>j. j < length d \<Longrightarrow> j mod 4 \<noteq> 3 \<Longrightarrow> 0 \<le> d ! j \<and> d ! j \<le> 255"
  shows "forPixels body n 0 d = d"
proof (rule forPixels_id)
  fix k assume k: "k < length d" "k mod 4 = 0"
  then have m: "k mod 4 \<noteq> 3" "(k + 1) mod 4 \<noteq> 3" "(k + 2) mod 4 \<noteq> 3" by presburger+
  show "case body k (d ! k) (d ! (k + 1)) (d ! (k + 2)) of
          (r, g, b) \<Rightarrow> r = d ! k \<and> (k + 1 < length d \<longrightarrow> g = d ! (k + 1))
            \<and> (k + 2 < length d \<longrightarrow> b = d ! (k + 2))"
    unfolding body using k(1) m by (simp add: store_byte bytes)
qed simp

lemma toneLoop_neutral:
  assumes "presetTemp preset + temp m = 0" "presetTint preset + tint m = 0"
    "exposure m = 1" "whites m = 1" "blacks m = 1" "dehaze m = 0"
    and "\<And>j. j < length d \<Longrightarrow> j mod 4 \<noteq> 3 \<Longrightarrow> 0 \<le> d ! j \<and> d ! j \<le> 255"
  shows "toneLoop preset m d = d"
  unfolding toneLoop_def
  by (rule forPixels_store_bytes [OF toneBody_neutral [OF assms(1-6)] assms(7)])

lemma blendFactor_zero: "0 \<le> t \<Longrightarrow> blendFactor 0 t = 0"
  unfolding blendFactor_def by simp

lemma retouch_neutral:
  assumes "isDisabled m ''retouch'' \<or> (skinSoftening m = 0 \<and> 0 \<le> texture m \<and> dodgeBurn m \<le> 0)"
  shows "retouch m fs i rgb = rgb"
  using assms unfolding retouch_def Let_def
  by (auto simp: blendFactor_zero split: prod.split)

lemma mainBody_neutral:
  assumes "texture m = 0" "clarity m = 0" "vibrance m = 1"
    "isDisabled m ''retouch'' \<or> (skinSoftening m = 0 \<and> dodgeBurn m \<le> 0)"
  shows "mainBody m f md fs i r g b =
     (toUint8Clamp (clamp255 (of_int r)), toUint8Clamp (clamp255 (of_int g)),
      toUint8Clamp (clamp255 (of_int b)))"
proof -
  have "retouch m fs i rgb = rgb" for rgb
    using assms by (intro retouch_neutral) auto
  then show ?thesis
    unfolding mainBody_def presence_def vibranceStep_def Let_def using assms by simp
qed

lemma mainLoop_neutral:
  assumes "texture m = 0" "clarity m = 0" "vibrance m = 1"
    "isDisabled m ''retouch'' \<or> (skinSoftening m = 0 \<and> dodgeBurn m \<le> 0)"
    and "\<And>j. j < length d \<Longrightarrow> j mod 4 \<noteq> 3 \<Longrightarrow> 0 \<le> d ! j \<and> d ! j \<le> 255"
  shows "mainLoop m f md fs d = d"
  unfolding mainLoop_def
  by (rule forPixels_store_bytes [OF mainBody_neutral [OF assms(1-4)] assms(5)])

subsection \<open>The mid-gray image under \<open>exposure = 1.2\<close>\<close>

lemma bright_fields:
  "texture brightSettings = 0" "clarity brightSettings = 0" "vibrance brightSettings = 1"
  "skinSoftening brightSettings = 0" "dodgeBurn brightSettings = 0" "sharpness brightSettings = 0"
  "vignette brightSettings = 0" "whiteOverlay brightSettings = 0" "blackOverlay brightSettings = 0"
  "watermarkText brightSettings = []" "contrast brightSettings = 1" "saturation brightSettings = 1"
  "temp brightSettings = 0" "tint brightSettings = 0"
  "isDisabled brightSettings key = False"
  unfolding brightSettings_def defaultSettings_def isDisabled_def by simp_all

lemma bright_tone_fields:
  "exposure brightSettings = 1.2" "whites brightSettings = 1" "blacks brightSettings = 1"
  "dehaze brightSettings = 0"
  unfolding brightSettings_def defaultSettings_def by simp_all

lemma toneBody_bright:
  assumes "colorBalance preset = None"
  shows "toneBody preset brightSettings i r g b =
     (toUint8Clamp (clamp255 (of_int r * 1.2)), toUint8Clamp (clamp255 (of_int g * 1.2)),
      toUint8Clamp (clamp255 (of_int b * 1.2)))"
  unfolding toneBody_def applyWB_def presetTemp_def presetTint_def Let_def
  using assms by (simp add: bright_fields bright_tone_fields)

lemma bright_store: "toUint8Clamp (clamp255 (768 / 5)) = 154"
  unfolding toUint8Clamp_def clamp255_def Let_def by simp

lemma toneLoop_gray:
  assumes "colorBalance preset = None" "j < length d" "j mod 4 \<noteq> 3" "d ! j = 128"
  shows "toneLoop preset brightSettings d ! j = 154"
proof -
  from assms(3) have "j mod 4 = 0 \<or> j mod 4 = 1 \<or> j mod 4 = 2" by presburger
  then show ?thesis
  proof (elim disjE)
    assume c: "j mod 4 = 0"
    then have "j - j mod 4 = j" by simp
    with c assms(4) show ?thesis
      unfolding toneLoop_def forPixels_nth [OF assms(2,3)] toneBody_bright [OF assms(1)]
      by (simp add: bright_store)
  next
    assume c: "j mod 4 = 1"
    then have "j - j mod 4 + 1 = j" by presburger
    with c assms(4) show ?thesis
      unfolding toneLoop_def forPixels_nth [OF assms(2,3)] toneBody_bright [OF assms(1)]
      by (simp add: bright_store)
  next
    assume c: "j mod 4 = 2"
    then have "j - j mod 4 + 2 = j" by presburger
    with c assms(4) show ?thesis
      unfolding toneLoop_def forPixels_nth [OF assms(2,3)] toneBody_bright [OF assms(1)]
      by (simp add: bright_store)
  qed
qed

lemma nth_concat_replicate:
  "length xs = m \<Longrightarrow> i < m * n \<Longrightarrow> concat (replicate n xs) ! i = xs ! (i mod m)"
proof (induction n arbitrary: i)
  case 0
  then show ?case by simp
next
  case (Suc n)
  show ?case
  proof (cases "i < m")
    case True
    with Suc.prems show ?thesis by (simp add: nth_append)
  next
    case False
    then have "i - m < m * n" "(i - m) mod m = i mod m"
      using Suc.prems by (simp_all add: le_mod_geq)
    with Suc.IH [of "i - m"] Suc.prems(1) False show ?thesis
      by (simp add: nth_append)
  qed
qed

lemma grayImage_nth:
  assumes "i < length (data grayImage)" "i mod 4 \<noteq> 3"
  shows "data grayImage ! i = 128"
proof -
  have "i < 4 * 16"
    using assms(1) by (simp add: grayImage_def length_concat sum_list_replicate)
  then have e: "data grayImage ! i = [128, 128, 128, 255] ! (i mod 4)"
    unfolding grayImage_def by (simp add: nth_concat_replicate)
  from assms(2) have "i mod 4 = 0 \<or> i mod 4 = 1 \<or> i mod 4 = 2" by presburger
  then show ?thesis unfolding e by auto
qed

lemma grayImage_bytes: "validBytes (data grayImage)"
  unfolding validBytes_def grayImage_def by (simp add: list_all_iff)

subsection \<open>What each stage reads of the settings\<close>

lemma toneStage_cong:
  assumes "isDisabled m1 ''basic'' = isDisabled m2 ''basic''" "temp m1 = temp m2" "tint m1 = tint m2"
    "exposure m1 = exposure m2" "whites m1 = whites m2" "blacks m1 = blacks m2" "dehaze m1 = dehaze m2"
  shows "toneStage preset m1 d = toneStage preset m2 d"
proof -
  have "toneBody preset m1 = toneBody preset m2"
    unfolding toneBody_def assms(2-7) by (rule refl)
  then show ?thesis unfolding toneStage_def toneLoop_def using assms(1) by simp
qed

lemma detailStage_cong:
  assumes "isDisabled m1 ''detail'' = isDisabled m2 ''detail''" "sharpness m1 = sharpness m2"
    "sharpenRadius m1 = sharpenRadius m2" "sharpenDetail m1 = sharpenDetail m2"
  shows "detailStage env m1 c = detailStage env m2 c"
  unfolding detailStage_def assms by (rule refl)

lemma mainLoop_cong:
  assumes "texture m1 = texture m2" "clarity m1 = clarity m2" "vibrance m1 = vibrance m2"
    "isDisabled m1 ''retouch'' = isDisabled m2 ''retouch''"
    "skinSoftening m1 = skinSoftening m2" "dodgeBurn m1 = dodgeBurn m2"
  shows "mainLoop m1 f md fs d = mainLoop m2 f md fs d"
proof -
  have "mainBody m1 f md fs = mainBody m2 f md fs"
    unfolding mainBody_def presence_def retouch_def assms by (rule refl)
  then show ?thesis unfolding mainLoop_def by simp
qed

lemma effectsStage_cong:
  assumes "vignette m1 = vignette m2" "isDisabled m1 ''effects'' = isDisabled m2 ''effects''"
    "whiteOverlay m1 = whiteOverlay m2" "blackOverlay m1 = blackOverlay m2"
  shows "effectsStage env m1 c = effectsStage env m2 c"
  unfolding effectsStage_def assms by (rule refl)

lemma watermarkStage_cong:
  assumes "isDisabled m1 ''watermark'' = isDisabled m2 ''watermark''"
    "watermarkText m1 = watermarkText m2" "watermarkOpacity m1 = watermarkOpacity m2"
    "watermarkSize m1 = watermarkSize m2" "watermarkColor m1 = watermarkColor m2"
  shows "watermarkStage env m1 c = watermarkStage env m2 c"
  unfolding watermarkStage_def assms by (rule refl)

lemma renderCanvas_cong:
  assumes "toneStage preset m1 (data img) = toneStage preset m2 (data img)"
    "contrast m1 = contrast m2" "saturation m1 = saturation m2"
    "\<And>c. detailStage env m1 c = detailStage env m2 c"
    "\<And>f md fs d. mainLoop m1 f md fs d = mainLoop m2 f md fs d"
    "\<And>c. effectsStage env m1 c = effectsStage env m2 c"
    "\<And>c. watermarkStage env m1 c = watermarkStage env m2 c"
  shows "renderCanvas env img preset m1 = renderCanvas env img preset m2"
  unfolding renderCanvas_def assms by (rule refl)

lemmas section_defs =
  withSection_def isDisabled_def toneDefaults_def detailDefaults_def gradingDefaults_def
  overlayDefaults_def retouchDefaults_def watermarkDefaults_def

lemma render_detail:
  "renderCanvas env img preset (withSection m ''detail'' True)
     = renderCanvas env img preset (withSection (detailDefaults m) ''detail'' False)"
proof (rule renderCanvas_cong)
  show "detailStage env (withSection m ''detail'' True) c
      = detailStage env (withSection (detailDefaults m) ''detail'' False) c" for c
    unfolding detailStage_def by (simp add: section_defs)
qed (auto intro!: toneStage_cong mainLoop_cong effectsStage_cong watermarkStage_cong
       simp: section_defs)

lemma render_watermark:
  "renderCanvas env img preset (withSection m ''watermark'' True)
     = renderCanvas env img preset (withSection (watermarkDefaults m) ''watermark'' False)"
proof (rule renderCanvas_cong)
  show "watermarkStage env (withSection m ''watermark'' True) c
      = watermarkStage env (withSection (watermarkDefaults m) ''watermark'' False) c" for c
    unfolding watermarkStage_def by (simp add: section_defs)
qed (auto intro!: toneStage_cong detailStage_cong mainLoop_cong effectsStage_cong
       simp: section_defs)

lemma render_grading:
  "renderCanvas env img preset (withSection m ''grading'' True)
     = renderCanvas env img preset (withSection (gradingDefaults m) ''grading'' False)"
  by (rule renderCanvas_cong)
    (auto intro!: toneStage_cong detailStage_cong mainLoop_cong effectsStage_cong
       watermarkStage_cong simp: section_defs)

lemma render_effects:
  "renderCanvas env img preset (withSection m ''effects'' True)
     = renderCanvas env img preset (withSection (overlayDefaults m) ''effects'' False)"
proof (rule renderCanvas_cong)
  show "effectsStage env (withSection m ''effects'' True) c
      = effectsStage env (withSection (overlayDefaults m) ''effects'' False) c" for c
    unfolding effectsStage_def by (simp add: section_defs)
qed (auto intro!: toneStage_cong detailStage_cong mainLoop_cong watermarkStage_cong
       simp: section_defs)

lemma render_retouch:
  assumes "0 \<le> texture m"
  shows "renderCanvas env img preset (withSection m ''retouch'' True)
     = renderCanvas env img preset (withSection (retouchDefaults m) ''retouch'' False)"
proof (rule renderCanvas_cong)
  let ?m1 = "withSection m ''retouch'' True" and ?m2 = "withSection (retouchDefaults m) ''retouch'' False"
  have r1: "retouch ?m1 fs i rgb = rgb" for fs i rgb
    by (rule retouch_neutral) (simp add: section_defs)
  have r2: "retouch ?m2 fs i rgb = rgb" for fs i rgb
    using assms by (intro retouch_neutral) (simp add: section_defs)
  have tc: "texture ?m1 = texture ?m2" "clarity ?m1 = clarity ?m2"
    by (simp_all add: section_defs)
  have p: "presence ?m1 = presence ?m2"
    unfolding presence_def tc by (rule refl)
  have v: "vibrance ?m1 = vibrance ?m2" by (simp add: section_defs)
  have "mainBody ?m1 f md fs = mainBody ?m2 f md fs" for f md fs
    unfolding mainBody_def r1 r2 p v by (rule refl)
  then show "mainLoop ?m1 f md fs d = mainLoop ?m2 f md fs d" for f md fs d
    unfolding mainLoop_def by simp
qed (auto intro!: toneStage_cong detailStage_cong effectsStage_cong watermarkStage_cong
       simp: section_defs)

lemma validBytes_nth: "validBytes d \<Longrightarrow> j < length d \<Longrightarrow> 0 \<le> d ! j \<and> d ! j \<le> 255"
  unfolding validBytes_def by (simp add: list_all_length)

lemma render_basic:
  assumes "presetTemp preset = 0" "presetTint preset = 0" "validBytes (data img)"
  shows "renderCanvas env img preset (withSection m ''basic'' True)
     = renderCanvas env img preset (withSection (toneDefaults m) ''basic'' False)"
proof (rule renderCanvas_cong)
  let ?m1 = "withSection m ''basic'' True" and ?m2 = "withSection (toneDefaults m) ''basic'' False"
  have "toneLoop preset ?m2 (data img) = data img"
    using assms by (intro toneLoop_neutral validBytes_nth) (simp_all add: section_defs)
  then show "toneStage preset ?m1 (data img) = toneStage preset ?m2 (data img)"
    unfolding toneStage_def by (simp add: section_defs)
qed (auto intro!: detailStage_cong mainLoop_cong effectsStage_cong watermarkStage_cong
       simp: section_defs)

lemma processImage_cong:
  assumes "\<And>img. loaded = OnLoad img \<Longrightarrow> renderCanvas env img preset m1 = renderCanvas env img preset m2"
  shows "processImage env loaded preset (Some m1) = processImage env loaded preset (Some m2)"
  unfolding processImage_def settingsOf_def using assms by (simp split: imageLoad.split)

subsection \<open>Runs on concrete inputs\<close>

lemma effectsStage_disabled:
  "effectsStage env (withSection m ''effects'' True) c
     = (if vignette m > 0 then c\<lparr>data := vignetteFill env (vignette m) c\<rparr> else c)"
  unfolding effectsStage_def by (simp add: section_defs)

text \<open>On the plain backend, settings whose later stages are neutral end with the toned canvas.\<close>

lemma renderCanvas_plain_neutral:
  assumes "sharpness m = 0" "texture m = 0" "clarity m = 0" "vibrance m = 1"
    "skinSoftening m = 0" "dodgeBurn m = 0" "vignette m = 0" "whiteOverlay m = 0"
    "blackOverlay m = 0" "watermarkText m = []"
    and "validBytes (toneStage preset m (data img))"
  shows "renderCanvas plainBackend img preset m = img\<lparr>data := toneStage preset m (data img)\<rparr>"
proof -
  let ?t = "toneStage preset m (data img)"
  have main: "mainLoop m f md fs ?t = ?t" for f md fs
    using assms by (intro mainLoop_neutral validBytes_nth) simp_all
  show ?thesis
    unfolding renderCanvas_def detailStage_def effectsStage_def watermarkStage_def Let_def
    by (simp add: assms plainBackend_def main)
qed

lemma withSection_fields:
  "sharpness (withSection m key flag) = sharpness m" "texture (withSection m key flag) = texture m"
  "clarity (withSection m key flag) = clarity m" "vibrance (withSection m key flag) = vibrance m"
  "skinSoftening (withSection m key flag) = skinSoftening m"
  "dodgeBurn (withSection m key flag) = dodgeBurn m" "vignette (withSection m key flag) = vignette m"
  "whiteOverlay (withSection m key flag) = whiteOverlay m"
  "blackOverlay (withSection m key flag) = blackOverlay m"
  "watermarkText (withSection m key flag) = watermarkText m"
  unfolding withSection_def by simp_all

lemma toneDefaults_fields:
  "sharpness (toneDefaults m) = sharpness m" "texture (toneDefaults m) = texture m"
  "clarity (toneDefaults m) = clarity m" "vibrance (toneDefaults m) = vibrance m"
  "skinSoftening (toneDefaults m) = skinSoftening m"
  "dodgeBurn (toneDefaults m) = dodgeBurn m" "vignette (toneDefaults m) = vignette m"
  "whiteOverlay (toneDefaults m) = whiteOverlay m"
  "blackOverlay (toneDefaults m) = blackOverlay m"
  "watermarkText (toneDefaults m) = watermarkText m"
  unfolding toneDefaults_def by simp_all

lemma default_fields:
  "sharpness defaultSettings = 0" "texture defaultSettings = 0" "clarity defaultSettings = 0"
  "vibrance defaultSettings = 1" "skinSoftening defaultSettings = 0" "dodgeBurn defaultSettings = 0"
  "vignette defaultSettings = 0" "whiteOverlay defaultSettings = 0" "blackOverlay defaultSettings = 0"
  "watermarkText defaultSettings = []" "temp defaultSettings = 0" "tint defaultSettings = 0"
  "exposure defaultSettings = 1" "whites defaultSettings = 1" "blacks defaultSettings = 1"
  "dehaze defaultSettings = 0" "disabledSections defaultSettings = Map.empty"
  unfolding defaultSettings_def by simp_all

lemma warm_tone_off:
  "toneStage warmPreset (withSection defaultSettings ''basic'' True) [100, 100, 100, 255]
     = [100, 100, 100, 255]"
  unfolding toneStage_def by (simp add: section_defs)

lemma warm_tone_on:
  "toneStage warmPreset (withSection (toneDefaults defaultSettings) ''basic'' False) [100, 100, 100, 255]
     = [102, 99, 98, 255]"
proof -
  let ?m = "withSection (toneDefaults defaultSettings) ''basic'' False"
  have f: "temp ?m = 0" "tint ?m = 0" "exposure ?m = 1" "whites ?m = 1" "blacks ?m = 1"
    "dehaze ?m = 0" "\<not> isDisabled ?m ''basic''"
    by (simp_all add: section_defs)
  have p: "presetTemp warmPreset = 4" "presetTint warmPreset = 2"
    by (simp_all add: presetTemp_def presetTint_def warmPreset_def orElse_def)
  have b: "toneBody warmPreset ?m 0 100 100 100 = (102, 99, 98)"
    unfolding toneBody_def applyWB_def f p toUint8Clamp_def clamp255_def Let_def by simp
  show ?thesis
    unfolding toneStage_def toneLoop_def using f(7)
    by (simp add: forPixels.simps [of _ _ 0] forPixels.simps [of _ _ 4] b)
qed


lemma soft_main_off:
  "mainLoop (withSection softSettings ''retouch'' True) blurData blurData blurData skinData
     = [192, 146, 104, 255]"
proof -
  let ?m = "withSection softSettings ''retouch'' True"
  have f: "texture ?m = - 0.5" "clarity ?m = 0" "vibrance ?m = 1" "isDisabled ?m ''retouch''"
    by (simp_all add: section_defs softSettings_def default_fields)
  have b: "mainBody ?m blurData blurData blurData 0 200 150 100 = (192, 146, 104)"
    unfolding mainBody_def presence_def vibranceStep_def retouch_def blurData_def
      toUint8Clamp_def clamp255_def Let_def
    by (simp add: f)
  show ?thesis
    unfolding mainLoop_def skinData_def
    by (simp add: forPixels.simps [of _ _ 0] forPixels.simps [of _ _ 4] b)
qed

lemma soft_main_on:
  "mainLoop (withSection (retouchDefaults softSettings) ''retouch'' False)
      blurData blurData blurData skinData
     = [187, 144, 106, 255]"
proof -
  let ?m = "withSection (retouchDefaults softSettings) ''retouch'' False"
  have f: "texture ?m = - 0.5" "clarity ?m = 0" "vibrance ?m = 1" "\<not> isDisabled ?m ''retouch''"
    "skinSoftening ?m = 0" "dodgeBurn ?m = 0"
    by (simp_all add: section_defs softSettings_def default_fields)
  have b: "mainBody ?m blurData blurData blurData 0 200 150 100 = (187, 144, 106)"
    unfolding mainBody_def presence_def vibranceStep_def retouch_def isSkin_def blendFactor_def
      blurData_def toUint8Clamp_def clamp255_def Let_def
    by (simp add: f)
  show ?thesis
    unfolding mainLoop_def skinData_def
    by (simp add: forPixels.simps [of _ _ 0] forPixels.simps [of _ _ 4] b)
qed

lemma warm_off:
  "processImage plainBackend (OnLoad (onePixel 100 100 100)) warmPreset
       (Some (withSection defaultSettings ''basic'' True))
     = Resolved (map char_of [100, 100, 100, 255 :: int])"
proof -
  let ?m = "withSection defaultSettings ''basic'' True"
  have "renderCanvas plainBackend (onePixel 100 100 100) warmPreset ?m
      = (onePixel 100 100 100)\<lparr>data := toneStage warmPreset ?m (data (onePixel 100 100 100))\<rparr>"
    by (rule renderCanvas_plain_neutral)
      (simp_all add: withSection_fields default_fields onePixel_def warm_tone_off validBytes_def)
  then show ?thesis
    unfolding processImage_def settingsOf_def
    by (simp add: onePixel_def warm_tone_off plainBackend_def)
qed

lemma warm_on:
  "processImage plainBackend (OnLoad (onePixel 100 100 100)) warmPreset
       (Some (withSection (toneDefaults defaultSettings) ''basic'' False))
     = Resolved (map char_of [102, 99, 98, 255 :: int])"
proof -
  let ?m = "withSection (toneDefaults defaultSettings) ''basic'' False"
  have "renderCanvas plainBackend (onePixel 100 100 100) warmPreset ?m
      = (onePixel 100 100 100)\<lparr>data := toneStage warmPreset ?m (data (onePixel 100 100 100))\<rparr>"
    by (rule renderCanvas_plain_neutral)
      (simp_all add: withSection_fields toneDefaults_fields default_fields onePixel_def
         warm_tone_on validBytes_def)
  then show ?thesis
    unfolding processImage_def settingsOf_def
    by (simp add: onePixel_def warm_tone_on plainBackend_def)
qed

lemma plainPreset_balance: "presetTemp plainPreset = 0" "presetTint plainPreset = 0"
  by (simp_all add: presetTemp_def presetTint_def plainPreset_def)

lemma bright_texture: "0 \<le> texture brightSettings"
  by (simp add: bright_fields)

subsection \<open>The tone loop in binary64 and the steps of the specification\<close>

text \<open>The product of two numbers does not depend on their order.\<close>

lemma fmul_commute: "fmul x y = fmul y x"
  by (cases x; cases y) (simp_all add: mult.commute)

lemma clamp_spec: "mathMax (Fin 0) (mathMin (Fin 255) x) = specClamp x"
  by (cases x) (auto simp: specClamp_def min_def max_def)

lemma presetTemp_spec: "fadd (num (presetTemp preset)) (num (temp m)) = specT preset m"
  unfolding presetTemp_def specT_def orElse_def by (simp split: option.split)

lemma presetTint_spec: "fadd (num (presetTint preset)) (num (tint m)) = specTn preset m"
  unfolding presetTint_def specTn_def orElse_def by (simp split: option.split)

lemma fmul_literal:
  "fmul x (Fin (1 / 2)) = fmul (Fin (1 / 2)) x" "fmul x (Fin (1 / 4)) = fmul (Fin (1 / 4)) x"
  "fmul x (Fin 15) = fmul (Fin 15) x" "fmul x (num (3 / 10)) = fmul (num (3 / 10)) x"
  by (rule fmul_commute)+

lemma applyWB64_spec: "applyWB64 r g b t tn = specWhiteBalance t tn (r, g, b)"
  unfolding applyWB64_def specWhiteBalance_def Let_def by (simp add: fmul_literal)

lemma tone_channel_spec:
  "mathMax (Fin 0) (mathMin (Fin 255)
     (if num (dehaze m) \<noteq> Fin 0
      then fadd (fadd (fmul (fsub (fadd (fmul (fmul c (num (exposure m))) (num (whites m)))
                                     (fmul (fsub (num (blacks m)) (Fin 1)) (Fin 50)))
                               (Fin 128))
                         (fadd (Fin 1) (fmul (num (dehaze m)) (num 0.3))))
                   (Fin 128))
             (fmul (num (dehaze m)) (Fin 15))
      else fadd (fmul (fmul c (num (exposure m))) (num (whites m)))
             (fmul (fsub (num (blacks m)) (Fin 1)) (Fin 50))))
   = specChannel inTurn m c"
  unfolding specChannel_def specDehaze_def specBlacks_def inTurn_def clamp_spec
  by (simp add: fmul_literal)

lemma toneBody64_spec:
  "toneBody64 preset m i r g b =
     (case specTone inTurn preset m (num (of_int r), num (of_int g), num (of_int b)) of
        (r', g', b') \<Rightarrow> (storeNum r', storeNum g', storeNum b'))"
  unfolding toneBody64_def Let_def applyWB64_spec presetTemp_spec presetTint_spec specTone_def
  by (simp add: tone_channel_spec split: prod.split)

lemma storeNum_range: "0 \<le> storeNum x \<and> storeNum x \<le> 255"
  by (cases x) (simp_all add: toUint8Clamp_range)

lemma toneBody64_bytes:
  "case toneBody64 preset m i r g b of (r', g', b') \<Rightarrow>
     (0 \<le> r' \<and> r' \<le> 255) \<and> (0 \<le> g' \<and> g' \<le> 255) \<and> (0 \<le> b' \<and> b' \<le> 255)"
  unfolding toneBody64_spec by (simp add: storeNum_range split: prod.split)

lemma toneLoop64_range:
  assumes "j < length d" "j mod 4 \<noteq> 3"
  shows "0 \<le> toneLoop64 preset m d ! j \<and> toneLoop64 preset m d ! j \<le> 255"
  unfolding toneLoop64_def
  using forPixels_bytes [of "toneBody64 preset m", OF toneBody64_bytes assms] .

subsection \<open>Binary64 values on concrete inputs\<close>

lemmas fl_eval = fl_def exponent_def roundTiesEven_def pow2_def Let_def
  expoUp.simps expoDown.simps

lemma dim_fields:
  "exposure dimSettings = 0.01" "whites dimSettings = 1.4" "blacks dimSettings = 1"
  "dehaze dimSettings = 0" "temp dimSettings = 0" "tint dimSettings = 0"
  "\<not> isDisabled dimSettings ''basic''"
  unfolding dimSettings_def defaultSettings_def isDisabled_def by simp_all

lemma lit_fields:
  "exposure litSettings = 1.1" "whites litSettings = 1" "blacks litSettings = 1"
  "dehaze litSettings = 0" "temp litSettings = 0" "tint litSettings = 0"
  "\<not> isDisabled litSettings ''basic''"
  unfolding litSettings_def defaultSettings_def isDisabled_def by simp_all

lemma num_values:
  "num 0 = Fin 0" "num 1 = Fin 1" "num 250 = Fin 250" "num 55 = Fin 55" "num 95 = Fin 95"
  "num 115 = Fin 115"
  "num (1 / 100) = Fin (5764607523034235 / 576460752303423488)"
  "num (7 / 5) = Fin (3152519739159347 / 2251799813685248)"
  "num (11 / 10) = Fin (2476979795053773 / 2251799813685248)"
  unfolding num_def by (simp_all add: fl_eval)

lemma dim_body: "toneBody64 plainPreset dimSettings i 250 250 250 = (4, 4, 4)"
  unfolding toneBody64_def applyWB64_def fsub_def dim_fields plainPreset_balance Let_def
  by (simp add: num_values fl_eval toUint8Clamp_def)

lemma lit_body: "toneBody64 plainPreset litSettings i 55 95 115 = (61, 105, 127)"
  unfolding toneBody64_def applyWB64_def fsub_def lit_fields plainPreset_balance Let_def
  by (simp add: num_values fl_eval toUint8Clamp_def)

lemma dim_tone: "toneStage64 plainPreset dimSettings [250, 250, 250, 255] = [4, 4, 4, 255]"
  unfolding toneStage64_def toneLoop64_def using dim_fields(7)
  by (simp add: forPixels.simps [of _ _ 0] forPixels.simps [of _ _ 4] dim_body)

lemma lit_tone: "toneStage64 plainPreset litSettings [55, 95, 115, 255] = [61, 105, 127, 255]"
  unfolding toneStage64_def toneLoop64_def using lit_fields(7)
  by (simp add: forPixels.simps [of _ _ 0] forPixels.simps [of _ _ 4] lit_body)

lemma plainPreset_T: "specT plainPreset m = fadd (Fin 0) (num (temp m))"
  "specTn plainPreset m = fadd (Fin 0) (num (tint m))"
  unfolding specT_def specTn_def plainPreset_def by (simp_all add: num_values)

lemma dim_product:
  "specTone byProduct plainPreset dimSettings (num 250, num 250, num 250)
     = (Fin (7881299347898367 / 2251799813685248), Fin (7881299347898367 / 2251799813685248),
        Fin (7881299347898367 / 2251799813685248))"
  unfolding specTone_def specWhiteBalance_def specChannel_def specDehaze_def specBlacks_def
    byProduct_def specClamp_def plainPreset_T fsub_def dim_fields Let_def
  by (simp add: num_values fl_eval)

lemma dim_product_store: "toUint8Clamp (7881299347898367 / 2251799813685248) = 3"
  by (simp add: toUint8Clamp_def Let_def)

text \<open>
  Some values of \<open>fl\<close>: the decimals 0.1 and 0.3, and the two ties next to 1, of which
  the first goes down to the even significand and the second up.
\<close>

lemma fl_examples:
  "fl (1 / 10) = Fin (3602879701896397 / 36028797018963968)"
  "fl (3 / 10) = Fin (5404319552844595 / 18014398509481984)"
  "fl (1 + 1 / 2 ^ 53) = Fin 1"
  "fl (1 + 3 / 2 ^ 53) = Fin (1 + 1 / 2 ^ 51)"
  "fl (- (5 / 2)) = Fin (- (5 / 2))"
  by (simp_all add: fl_eval)

section \<open>The claims\<close>

subsection \<open>The range of the stored channels\<close>

text \<open>
  Claim C1: for every image, preset and settings, every channel value that a pixel loop
  writes back (the tone loop, the loop of presence, vibrance and retouch, and also the
  loop of the unsharp mask) lies in [0,255] in the output array of that loop. The entries
  written are those at the indices \<open>j\<close> inside the array with \<open>j mod 4 \<noteq> 3\<close>.
\<close>

theorem stage_output_in_byte_range:
  assumes "j < length d" "j mod 4 \<noteq> 3"
  shows "(0 \<le> toneLoop preset m d ! j \<and> toneLoop preset m d ! j \<le> 255)
       \<and> (0 \<le> mainLoop m fineBlurred mediumBlurred fsBlurred d ! j
            \<and> mainLoop m fineBlurred mediumBlurred fsBlurred d ! j \<le> 255)
       \<and> (0 \<le> detailLoop blurredData intensity d ! j
            \<and> detailLoop blurredData intensity d ! j \<le> 255)"
  unfolding toneLoop_def mainLoop_def detailLoop_def
  using forPixels_bytes [of "toneBody preset m", OF toneBody_bytes assms]
    forPixels_bytes [of "mainBody m fineBlurred mediumBlurred fsBlurred", OF mainBody_bytes assms]
    forPixels_bytes [of "detailBody blurredData intensity", OF detailBody_bytes assms]
  by blast

theorem stage_output_in_byte_range_witness:
  "(1::nat) < length skinData \<and> (1::nat) mod 4 \<noteq> 3
   \<and> (0 \<le> toneLoop warmPreset brightSettings skinData ! 1
        \<and> toneLoop warmPreset brightSettings skinData ! 1 \<le> 255)
   \<and> (0 \<le> mainLoop brightSettings blurData blurData blurData skinData ! 1
        \<and> mainLoop brightSettings blurData blurData blurData skinData ! 1 \<le> 255)
   \<and> (0 \<le> detailLoop blurData 1 skinData ! 1 \<and> detailLoop blurData 1 skinData ! 1 \<le> 255)"
proof -
  have h: "(1::nat) < length skinData" "(1::nat) mod 4 \<noteq> 3"
    by (simp_all add: skinData_def)
  from stage_output_in_byte_range [OF h] h show ?thesis by blast
qed

subsection \<open>The tone stage\<close>

text \<open>
  Claim C2, as stated: with \<open>disabledSections.basic\<close> false, the tone stage maps each pixel
  through (1) the white balance, (2) the product of each channel with \<open>exposure \<cdot> whites\<close>,
  (3) the blacks offset, (4) the dehaze map, and the clamp to [0,255]. On the pixel
  (250,250,250) with \<open>exposure = 0.01\<close>, \<open>whites = 1.4\<close> and everything else at its default
  the code stores 4 in each colour channel: \<open>250 * 0.01\<close> is 2.5 and \<open>2.5 * 1.4\<close> rounds to
  3.5, stored as 4. The steps of the claim give 3: \<open>0.01 * 1.4\<close> rounds to
  0.014000000000000002 and its product with 250 to 3.4999999999999996, stored as 3.
\<close>

theorem tone_product_counterexample:
  "\<not> isDisabled dimSettings ''basic''
   \<and> toneStage64 plainPreset dimSettings [250, 250, 250, 255] = [4, 4, 4, 255]
   \<and> (case specTone byProduct plainPreset dimSettings (num 250, num 250, num 250) of
         (r, g, b) \<Rightarrow> [storeNum r, storeNum g, storeNum b]) = [3, 3, 3]"
  unfolding dim_tone dim_product using dim_fields(7) by (simp add: dim_product_store)

text \<open>
  Claim C2, amended: when \<open>disabledSections.basic\<close> is false, the tone stage maps each
  pixel through these steps in this order, every operation a binary64 operation: (1) the
  white balance \<open>r += 0.5 \<cdot> T\<close>, \<open>b -= 0.5 \<cdot> T\<close>, \<open>g -= 0.5 \<cdot> Tn\<close>, \<open>r += 0.25 \<cdot> Tn\<close>,
  \<open>b += 0.25 \<cdot> Tn\<close> with \<open>T\<close> and \<open>Tn\<close> the sums of the preset's colour balance and the
  manual values; (2) each channel multiplied by \<open>exposure\<close> and the result by \<open>whites\<close>;
  (3) each channel plus \<open>(blacks - 1) \<cdot> 50\<close>; (4) for \<open>dehaze \<noteq> 0\<close> each channel mapped to
  \<open>(c - 128) \<cdot> (1 + 0.3 \<cdot> dehaze) + 128 + 15 \<cdot> dehaze\<close>; then the clamp to [0,255]
  (\<open>specTone inTurn\<close>), and the value is stored in the byte array. Alpha and the length
  of the array stay. When \<open>disabledSections.basic\<close> is true the array is unchanged. The
  pixel is the one at the index \<open>k\<close>, a multiple of 4, with its four entries inside the
  array.
\<close>

theorem toneStage64_refines_spec:
  assumes "k mod 4 = 0" "k + 3 < length d"
  shows "if isDisabled m ''basic'' then toneStage64 preset m d = d
         else (case specTone inTurn preset m
                      (num (of_int (d ! k)), num (of_int (d ! (k + 1))), num (of_int (d ! (k + 2)))) of
                 (r, g, b) \<Rightarrow>
                   toneStage64 preset m d ! k = storeNum r
                   \<and> toneStage64 preset m d ! (k + 1) = storeNum g
                   \<and> toneStage64 preset m d ! (k + 2) = storeNum b)
              \<and> toneStage64 preset m d ! (k + 3) = d ! (k + 3)
              \<and> length (toneStage64 preset m d) = length d"
proof (cases "isDisabled m ''basic''")
  case True
  then show ?thesis by (simp add: toneStage64_def)
next
  case False
  obtain r g b where s: "specTone inTurn preset m
      (num (of_int (d ! k)), num (of_int (d ! (k + 1))), num (of_int (d ! (k + 2)))) = (r, g, b)"
    by (cases "specTone inTurn preset m
      (num (of_int (d ! k)), num (of_int (d ! (k + 1))), num (of_int (d ! (k + 2))))") auto
  then have e: "toneBody64 preset m k (d ! k) (d ! (k + 1)) (d ! (k + 2))
      = (storeNum r, storeNum g, storeNum b)"
    by (simp add: toneBody64_spec)
  have k: "(0::nat) mod 4 = 0" "k mod 4 = 0" "0 \<le> k" "k < length d"
    using assms by simp_all
  note p = forPixels_pixel [of 0 k "length d" "toneBody64 preset m" d _ _ _, OF k e]
  have a: "(k + 3) mod 4 = 3" using assms(1) by presburger
  have "toneLoop64 preset m d ! (k + 3) = d ! (k + 3)" "length (toneLoop64 preset m d) = length d"
    unfolding toneLoop64_def using a by (simp_all add: forPixels_frame forPixels_length)
  with p assms(2) False s show ?thesis
    by (simp add: toneStage64_def toneLoop64_def upd_nth_same)
qed

theorem toneStage64_refines_spec_witness:
  "(0::nat) mod 4 = 0 \<and> (0::nat) + 3 < length [55, 95, 115, 255 :: int]
   \<and> (if isDisabled litSettings ''basic''
       then toneStage64 plainPreset litSettings [55, 95, 115, 255] = [55, 95, 115, 255]
       else (case specTone inTurn plainPreset litSettings
                    (num (of_int ([55, 95, 115, 255] ! 0)), num (of_int ([55, 95, 115, 255] ! (0 + 1))),
                     num (of_int ([55, 95, 115, 255] ! (0 + 2)))) of
               (r, g, b) \<Rightarrow>
                 toneStage64 plainPreset litSettings [55, 95, 115, 255] ! 0 = storeNum r
                 \<and> toneStage64 plainPreset litSettings [55, 95, 115, 255] ! (0 + 1) = storeNum g
                 \<and> toneStage64 plainPreset litSettings [55, 95, 115, 255] ! (0 + 2) = storeNum b)
            \<and> toneStage64 plainPreset litSettings [55, 95, 115, 255] ! (0 + 3)
                = [55, 95, 115, 255] ! (0 + 3)
            \<and> length (toneStage64 plainPreset litSettings [55, 95, 115, 255])
                = length [55, 95, 115, 255 :: int])
   \<and> toneStage64 plainPreset litSettings [55, 95, 115, 255] = [61, 105, 127, 255]"
proof -
  have h: "(0::nat) mod 4 = 0" "(0::nat) + 3 < length [55, 95, 115, 255 :: int]"
    by simp_all
  from toneStage64_refines_spec [OF h] h lit_tone show ?thesis by blast
qed


subsection \<open>Disabling a section\<close>

text \<open>
  Claim C3, as stated: for every section key, a run with the flag of the section set
  gives the output of a run with the section's own parameters at their defaults and the
  flag cleared, everything else fixed. Two inputs on which this fails:
  \<^item> \<open>basic\<close>: one pixel (100,100,100), a preset with colour balance \<open>temp = 4\<close>,
    \<open>tint = 2\<close>, every manual setting at its default. With the flag set the tone loop is
    skipped and the pixel stays; with the flag cleared the loop applies the preset's colour
    balance and the pixel becomes (102,99,98).
  \<^item> \<open>retouch\<close>: the pixel (200,150,100), blurred copies (180,140,110),
    \<open>texture = -0.5\<close> (a parameter of the Basic panel), \<open>skinSoftening = dodgeBurn = 0\<close>.
    With the flag set the last loop stores (192,146,104); with the flag cleared the
    negative texture gives the blend factor 0.4 and the loop stores (187,144,106).
\<close>

theorem section_disable_counterexample:
  "processImage plainBackend (OnLoad (onePixel 100 100 100)) warmPreset
       (Some (withSection defaultSettings ''basic'' True))
     = Resolved (map char_of [100, 100, 100, 255 :: int])
   \<and> processImage plainBackend (OnLoad (onePixel 100 100 100)) warmPreset
       (Some (withSection (toneDefaults defaultSettings) ''basic'' False))
     = Resolved (map char_of [102, 99, 98, 255 :: int])
   \<and> processImage plainBackend (OnLoad (onePixel 100 100 100)) warmPreset
       (Some (withSection defaultSettings ''basic'' True))
     \<noteq> processImage plainBackend (OnLoad (onePixel 100 100 100)) warmPreset
       (Some (withSection (toneDefaults defaultSettings) ''basic'' False))
   \<and> mainLoop (withSection softSettings ''retouch'' True) blurData blurData blurData skinData
     = [192, 146, 104, 255]
   \<and> mainLoop (withSection (retouchDefaults softSettings) ''retouch'' False)
        blurData blurData blurData skinData
     = [187, 144, 106, 255]"
  unfolding warm_off warm_on soft_main_off soft_main_on by simp

text \<open>
  Claim C3, amended: a run with the flag of a section set gives the output of the run
  with the flag cleared and the parameters that the flag gates at their defaults, all
  other parameters fixed,
  \<^item> for \<open>detail\<close> (sharpness, sharpenRadius, sharpenDetail, noiseReduction),
    \<open>watermark\<close> (text, opacity, size, colour) and \<open>grading\<close> (the two tints; neither the
    flag nor the tints are read), always;
  \<^item> for \<open>effects\<close> with \<open>whiteOverlay\<close> and \<open>blackOverlay\<close> at 0, the vignette being
    among the parameters kept fixed;
  \<^item> for \<open>retouch\<close> (skinSoftening, skinTone, dodgeBurn) when \<open>texture \<ge> 0\<close>;
  \<^item> for \<open>basic\<close> with exposure, whites, blacks, dehaze, temp and tint at their defaults
    (contrast, saturation, texture, clarity and vibrance kept fixed) when the preset's
    colour balance is absent or 0 and the image data are bytes.
\<close>

theorem section_disable_amended:
  "processImage env loaded preset (Some (withSection m ''detail'' True))
     = processImage env loaded preset (Some (withSection (detailDefaults m) ''detail'' False))
   \<and> processImage env loaded preset (Some (withSection m ''watermark'' True))
     = processImage env loaded preset (Some (withSection (watermarkDefaults m) ''watermark'' False))
   \<and> processImage env loaded preset (Some (withSection m ''grading'' True))
     = processImage env loaded preset (Some (withSection (gradingDefaults m) ''grading'' False))
   \<and> processImage env loaded preset (Some (withSection m ''effects'' True))
     = processImage env loaded preset (Some (withSection (overlayDefaults m) ''effects'' False))
   \<and> (0 \<le> texture m \<longrightarrow>
        processImage env loaded preset (Some (withSection m ''retouch'' True))
          = processImage env loaded preset (Some (withSection (retouchDefaults m) ''retouch'' False)))
   \<and> (presetTemp preset = 0 \<and> presetTint preset = 0 \<and> validLoad loaded \<longrightarrow>
        processImage env loaded preset (Some (withSection m ''basic'' True))
          = processImage env loaded preset (Some (withSection (toneDefaults m) ''basic'' False)))"
proof (intro conjI impI)
  assume "presetTemp preset = 0 \<and> presetTint preset = 0 \<and> validLoad loaded"
  then show "processImage env loaded preset (Some (withSection m ''basic'' True))
          = processImage env loaded preset (Some (withSection (toneDefaults m) ''basic'' False))"
    by (intro processImage_cong render_basic) (simp_all add: validLoad_def)
qed (intro processImage_cong render_detail render_watermark render_grading render_effects
       render_retouch; assumption)+

theorem section_disable_amended_witness:
  "0 \<le> texture brightSettings
   \<and> presetTemp plainPreset = 0 \<and> presetTint plainPreset = 0 \<and> validLoad (OnLoad grayImage)
   \<and> processImage plainBackend (OnLoad grayImage) plainPreset
        (Some (withSection brightSettings ''retouch'' True))
     = processImage plainBackend (OnLoad grayImage) plainPreset
        (Some (withSection (retouchDefaults brightSettings) ''retouch'' False))
   \<and> processImage plainBackend (OnLoad grayImage) plainPreset
        (Some (withSection brightSettings ''basic'' True))
     = processImage plainBackend (OnLoad grayImage) plainPreset
        (Some (withSection (toneDefaults brightSettings) ''basic'' False))"
proof -
  have h: "0 \<le> texture brightSettings"
    "presetTemp plainPreset = 0 \<and> presetTint plainPreset = 0 \<and> validLoad (OnLoad grayImage)"
    by (simp_all add: bright_texture plainPreset_balance validLoad_def grayImage_bytes)
  from section_disable_amended [of plainBackend "OnLoad grayImage" plainPreset brightSettings] h
  show ?thesis by blast
qed

subsection \<open>The structured fields of the preset\<close>

lemma renderCanvas_fields_unread:
  "renderCanvas env img (preset\<lparr>tonalRange := a, toneCurve := b, glow := c, overlay := d\<rparr>) m
     = renderCanvas env img preset m"
  unfolding renderCanvas_def toneStage_def toneLoop_def toneBody_def presetTemp_def
    presetTint_def fsBlurredOf_def fsRadius_def
  by simp

lemma processImage_fields_unread:
  "processImage env loaded (preset\<lparr>tonalRange := a, toneCurve := b, glow := c, overlay := d\<rparr>) ms
     = processImage env loaded preset ms"
  unfolding processImage_def by (simp add: renderCanvas_fields_unread split: imageLoad.split)

text \<open>
  Claim C4, as stated: for some image and settings, a preset that sets \<open>tonalRange\<close>,
  \<open>toneCurve\<close>, \<open>glow\<close> or \<open>overlay\<close> gives another output than the same preset
  without the field. No such input exists.
\<close>

theorem preset_fields_never_change_output:
  "\<not> (\<exists>env loaded preset ms a b c d.
         processImage env loaded (preset\<lparr>tonalRange := a, toneCurve := b, glow := c, overlay := d\<rparr>) ms
           \<noteq> processImage env loaded preset ms)"
  by (simp add: processImage_fields_unread)

text \<open>
  Claim C4, amended: \<open>processImage\<close> does not read the fields \<open>tonalRange\<close>, \<open>toneCurve\<close>,
  \<open>glow\<close> and \<open>overlay\<close> of the preset: whatever they are set to, present or absent, the
  result of the call is the same.
\<close>

theorem preset_fields_not_consulted:
  "processImage env loaded
     (preset\<lparr>tonalRange := a, toneCurve := b, glow := c, overlay := d\<rparr>) manualSettings
   = processImage env loaded preset manualSettings"
  by (rule processImage_fields_unread)

subsection \<open>A source image that fails to decode\<close>

text \<open>
  Claim C5 says that a call whose source image fails to decode ends with a fatal error.
  In the code the promise is left pending: it is neither resolved nor rejected, for every
  preset and every settings.
\<close>

theorem decode_failure_never_settles:
  "processImage env OnError preset manualSettings = Pending"
  unfolding processImage_def by simp

subsection \<open>The retouch blend factor\<close>




subsection \<open>Vibrance on a gray pixel\<close>


subsection \<open>The mid-gray scenario\<close>

text \<open>
  Claim C8: on a uniform mid-gray image (every colour channel 128), with a preset whose
  filter string is empty and which has no colour balance, \<open>exposure = 1.2\<close> and every
  other parameter at its default, every colour channel is 154 after the tone stage
  (128 \<cdot> 1.2 = 153.6, stored as 154), and no later stage changes a pixel: the canvas
  at the end is the canvas after the tone stage. The browser is taken to draw this canvas
  unchanged through the filter \<open>contrast(1) saturate(1)\<close>.
\<close>

theorem midgray_scenario:
  assumes preset: "filters preset = []" "colorBalance preset = None"
    and gray: "\<And>i. i < length (data img) \<Longrightarrow> i mod 4 \<noteq> 3 \<Longrightarrow> data img ! i = 128"
    and css: "filterDraw env [] 1 1 (img\<lparr>data := toneStage preset brightSettings (data img)\<rparr>)
                = toneStage preset brightSettings (data img)"
    and j: "j < length (data img)" "j mod 4 \<noteq> 3"
  shows "toneStage preset brightSettings (data img) ! j = 154
       \<and> renderCanvas env img preset brightSettings
           = img\<lparr>data := toneStage preset brightSettings (data img)\<rparr>"
proof -
  let ?t = "toneStage preset brightSettings (data img)"
  have t: "?t = toneLoop preset brightSettings (data img)"
    by (simp add: toneStage_def bright_fields)
  have len: "length ?t = length (data img)"
    unfolding t toneLoop_def by (rule forPixels_length)
  have v: "?t ! i = 154" if "i < length (data img)" "i mod 4 \<noteq> 3" for i
    unfolding t using preset(2) that gray [OF that] by (rule toneLoop_gray)
  have main: "mainLoop brightSettings f md fs ?t = ?t" for f md fs
  proof (rule mainLoop_neutral)
    fix i assume "i < length ?t" "i mod 4 \<noteq> 3"
    then show "0 \<le> ?t ! i \<and> ?t ! i \<le> 255" using v len by simp
  qed (simp_all add: bright_fields)
  have "renderCanvas env img preset brightSettings = img\<lparr>data := ?t\<rparr>"
    unfolding renderCanvas_def detailStage_def effectsStage_def watermarkStage_def Let_def
    by (simp add: bright_fields preset css main)
  with v [OF j] show ?thesis by simp
qed

theorem midgray_scenario_witness:
  "filters plainPreset = [] \<and> colorBalance plainPreset = None
   \<and> data grayImage = concat (replicate 16 [128, 128, 128, 255])
   \<and> filterDraw plainBackend [] 1 1
        (grayImage\<lparr>data := toneStage plainPreset brightSettings (data grayImage)\<rparr>)
       = toneStage plainPreset brightSettings (data grayImage)
   \<and> (5::nat) < length (data grayImage) \<and> (5::nat) mod 4 \<noteq> 3
   \<and> toneStage plainPreset brightSettings (data grayImage) ! 5 = 154
   \<and> renderCanvas plainBackend grayImage plainPreset brightSettings
       = grayImage\<lparr>data := toneStage plainPreset brightSettings (data grayImage)\<rparr>"
proof -
  have p: "filters plainPreset = []" "colorBalance plainPreset = None"
    by (simp_all add: plainPreset_def)
  have css: "filterDraw plainBackend [] 1 1
        (grayImage\<lparr>data := toneStage plainPreset brightSettings (data grayImage)\<rparr>)
       = toneStage plainPreset brightSettings (data grayImage)"
    by (simp add: plainBackend_def)
  have j: "(5::nat) < length (data grayImage)" "(5::nat) mod 4 \<noteq> 3"
    by (simp_all add: grayImage_def length_concat sum_list_replicate)
  have g: "data grayImage = concat (replicate 16 [128, 128, 128, 255])"
    by (simp add: grayImage_def)
  from midgray_scenario [OF p grayImage_nth css j] p g css j show ?thesis
    by blast
qed

subsection \<open>The alpha channel\<close>

text \<open>
  Claim C9: for every input and parameters, the alpha entry of every pixel (the indices
  \<open>j\<close> with \<open>j mod 4 = 3\<close>) is the same before and after the tone loop, the loop of the
  unsharp mask and the loop of presence, vibrance and retouch; each loop keeps the length
  of the array. Only the canvas operations after the loops can touch alpha.
\<close>

theorem alpha_preserved:
  assumes "j mod 4 = 3"
  shows "toneLoop preset m d ! j = d ! j
       \<and> detailLoop blurredData intensity d ! j = d ! j
       \<and> mainLoop m fineBlurred mediumBlurred fsBlurred d ! j = d ! j
       \<and> length (toneLoop preset m d) = length d
       \<and> length (detailLoop blurredData intensity d) = length d
       \<and> length (mainLoop m fineBlurred mediumBlurred fsBlurred d) = length d"
  unfolding toneLoop_def mainLoop_def detailLoop_def
  using assms by (simp add: forPixels_frame forPixels_length)

theorem alpha_preserved_witness:
  "(3::nat) mod 4 = 3
   \<and> toneLoop warmPreset brightSettings skinData ! 3 = skinData ! 3
   \<and> detailLoop blurData 1 skinData ! 3 = skinData ! 3
   \<and> mainLoop brightSettings blurData blurData blurData skinData ! 3 = skinData ! 3
   \<and> length (toneLoop warmPreset brightSettings skinData) = length skinData
   \<and> length (detailLoop blurData 1 skinData) = length skinData
   \<and> length (mainLoop brightSettings blurData blurData blurData skinData) = length skinData"
proof -
  have h: "(3::nat) mod 4 = 3" by simp
  from alpha_preserved [OF h] h show ?thesis by blast
qed

subsection \<open>The radius of the frequency-separation blur\<close>



end
